theory Spec2Isabelle
  imports Main "HOL-Library.AList" "HOL-Library.Word"
begin

unbundle bit_operations_syntax

section \<open>Strings\<close>

text \<open>
  A JavaScript string is modelled as a \<^typ>\<open>string\<close>: a list of code units, here the
  code units below 256. The helpers below are the methods of \<^verbatim>\<open>String.prototype\<close> the
  program calls, each with the behaviour the language gives it on such strings.
\<close>

text \<open>The code units \<^verbatim>\<open>trim\<close> removes: tab, line feed, vertical tab, form feed,
  carriage return, space and no-break space.\<close>

definition js_whitespace :: "char \<Rightarrow> bool" where
  "js_whitespace c = (c \<in> {CHR 0x09, CHR 0x0A, CHR 0x0B, CHR 0x0C, CHR 0x0D, CHR 0x20, CHR 0xA0})"

definition trim :: "string \<Rightarrow> string" where
  "trim s = rev (dropWhile js_whitespace (rev (dropWhile js_whitespace s)))"

definition startsWith :: "string \<Rightarrow> string \<Rightarrow> bool" where
  "startsWith s p = (take (length p) s = p)"

definition endsWith :: "string \<Rightarrow> string \<Rightarrow> bool" where
  "endsWith s p = (length p \<le> length s \<and> drop (length s - length p) s = p)"

text \<open>\<^verbatim>\<open>s.includes(p)\<close>: \<open>p\<close> occurs in \<open>s\<close> as a contiguous substring.\<close>

fun includes_str :: "string \<Rightarrow> string \<Rightarrow> bool" where
  "includes_str [] p = (p = [])"
| "includes_str (c # cs) p = (startsWith (c # cs) p \<or> includes_str cs p)"

text \<open>\<^verbatim>\<open>s.indexOf(c)\<close> for a one-character argument: the first position, or \<open>-1\<close>.\<close>

definition indexOf :: "string \<Rightarrow> char \<Rightarrow> int" where
  "indexOf s c = (if c \<in> set s then int (length (takeWhile (\<lambda>x. x \<noteq> c) s)) else - 1)"

text \<open>\<^verbatim>\<open>s.substring(a, b)\<close> and \<^verbatim>\<open>s.substring(a)\<close> for non-negative arguments
  with \<open>a \<le> b\<close>, the only way the program calls them.\<close>

definition substring :: "string \<Rightarrow> int \<Rightarrow> int \<Rightarrow> string" where
  "substring s a b = take (nat b - nat a) (drop (nat a) s)"

definition substring_from :: "string \<Rightarrow> int \<Rightarrow> string" where
  "substring_from s a = drop (nat a) s"

text \<open>\<^verbatim>\<open>s.split(c)\<close> for a one-character separator: never empty, and \<open>[[]]\<close> on the
  empty string.\<close>

fun split_str :: "string \<Rightarrow> char \<Rightarrow> string list" where
  "split_str [] c = [[]]"
| "split_str (x # xs) c =
     (if x = c then [] # split_str xs c
      else (case split_str xs c of
              [] \<Rightarrow> [[x]]
            | l # ls \<Rightarrow> (x # l) # ls))"

text \<open>\<^verbatim>\<open>xs.join(sep)\<close> on an array of strings.\<close>

fun join_str :: "string list \<Rightarrow> string \<Rightarrow> string" where
  "join_str [] sep = []"
| "join_str [x] sep = x"
| "join_str (x # y # ys) sep = x @ sep @ join_str (y # ys) sep"

text \<open>\<^verbatim>\<open>s.replace(/^p/, '')\<close>: drop the prefix \<open>p\<close> when \<open>s\<close> starts with it.\<close>

definition stripPrefix :: "string \<Rightarrow> string \<Rightarrow> string" where
  "stripPrefix p s = (if startsWith s p then drop (length p) s else s)"

text \<open>\<^verbatim>\<open>s.split(c).pop()\<close>: the segment after the last separator (all of \<open>s\<close> when
  there is none).\<close>

definition lastSegment :: "string \<Rightarrow> char \<Rightarrow> string" where
  "lastSegment s c = rev (takeWhile (\<lambda>x. x \<noteq> c) (rev s))"

section \<open>Objects used as dictionaries\<close>

text \<open>
  A \<^verbatim>\<open>Record<string, T>\<close> and a \<^verbatim>\<open>Map<string, T>\<close> are association lists with distinct
  keys, in the order \<^verbatim>\<open>Object.entries\<close> (or \<^verbatim>\<open>Map.prototype.entries\<close>) enumerates them.
  The list holds the own properties of an object. For a \<^verbatim>\<open>Map\<close>, reading is \<^const>\<open>map_of\<close> and
  \<^verbatim>\<open>m.set(k, v)\<close> is \<^const>\<open>AList.update\<close>, which replaces the value of a key in place and
  appends a new key.

  An object enumerates its array indices first, in ascending order, and its other keys
  after them in the order of their creation. An array index is the canonical decimal
  numeral of a number below \<^verbatim>\<open>2^32 - 1\<close>.
\<close>

type_synonym 'v dict = "(string \<times> 'v) list"

text \<open>
  An object written as \<^verbatim>\<open>{}\<close> inherits the members of \<^verbatim>\<open>Object.prototype\<close>. A read
  \<^verbatim>\<open>o[k]\<close> of a name the object does not own finds the inherited member, a function or
  (for \<^verbatim>\<open>__proto__\<close>) the prototype object itself, all of them truthy.
\<close>

definition objectPrototypeMembers :: "string list" where
  "objectPrototypeMembers =
     [''constructor'', ''__defineGetter__'', ''__defineSetter__'', ''hasOwnProperty'',
      ''__lookupGetter__'', ''__lookupSetter__'', ''isPrototypeOf'', ''propertyIsEnumerable'',
      ''toString'', ''valueOf'', ''__proto__'', ''toLocaleString'']"

definition inheritedMember :: "string \<Rightarrow> bool" where
  "inheritedMember k = (k \<in> set objectPrototypeMembers)"

definition isDigit :: "char \<Rightarrow> bool" where
  "isDigit c = (48 \<le> (of_char c :: nat) \<and> (of_char c :: nat) \<le> 57)"

definition digitsValue :: "string \<Rightarrow> nat" where
  "digitsValue s = foldl (\<lambda>n c. 10 * n + (of_char c - 48)) 0 s"

definition arrayIndex :: "string \<Rightarrow> nat option" where
  "arrayIndex k =
     (if k \<noteq> [] \<and> list_all isDigit k \<and> (length k = 1 \<or> hd k \<noteq> CHR ''0'') \<and>
         digitsValue k < 4294967295
      then Some (digitsValue k) else None)"

text \<open>A new array index goes before the first key that is no array index or a greater one.\<close>

fun insertIndexed :: "nat \<Rightarrow> string \<times> 'v \<Rightarrow> 'v dict \<Rightarrow> 'v dict" where
  "insertIndexed n kv [] = [kv]"
| "insertIndexed n kv (x # rest) =
     (case arrayIndex (fst x) of
        Some n' \<Rightarrow> if n' < n then x # insertIndexed n kv rest else kv # x # rest
      | None \<Rightarrow> kv # x # rest)"

text \<open>
  The assignment \<^verbatim>\<open>o[k] = v\<close> on such an object. It replaces the value of an own key in
  place and adds a new key at its place in the enumeration, except for the name
  \<^verbatim>\<open>__proto__\<close>: that assignment calls the inherited setter, which changes the prototype
  at most, and the object gets no own property.
\<close>

definition assign :: "string \<Rightarrow> 'v \<Rightarrow> 'v dict \<Rightarrow> 'v dict" where
  "assign k v obj =
     (if k = ''__proto__'' then obj
      else if map_of obj k \<noteq> None then AList.update k v obj
      else (case arrayIndex k of
              Some n \<Rightarrow> insertIndexed n (k, v) obj
            | None \<Rightarrow> obj @ [(k, v)]))"

text \<open>The keys of an object in a possible order of enumeration.\<close>

definition enumerationOrder :: "string list \<Rightarrow> bool" where
  "enumerationOrder ks =
     (sorted_wrt (<) (map (the \<circ> arrayIndex) (takeWhile (\<lambda>k. arrayIndex k \<noteq> None) ks)) \<and>
      list_all (\<lambda>k. arrayIndex k = None) (dropWhile (\<lambda>k. arrayIndex k \<noteq> None) ks))"

text \<open>
  The callback of the two \<^verbatim>\<open>reduce\<close> calls that group by target item:
  \<^verbatim>\<open>if (!acc[k]) acc[k] = []; acc[k].push(v)\<close>. When \<open>k\<close> names an inherited member the
  read is truthy, nothing is assigned, and the member has no \<^verbatim>\<open>push\<close>: a \<^verbatim>\<open>TypeError\<close>,
  here \<open>None\<close>.
\<close>

definition pushTo :: "string \<Rightarrow> 'a \<Rightarrow> ('a list) dict \<Rightarrow> ('a list) dict option" where
  "pushTo k v acc =
     (let acc' = (if map_of acc k = None \<and> \<not> inheritedMember k then assign k [] acc else acc)
      in case map_of acc' k of
           Some l \<Rightarrow> Some (AList.map_entry k (\<lambda>l. l @ [v]) acc')
         | None \<Rightarrow> None)"

section \<open>Language files (converters.ts, bedrock-import.ts)\<close>

record LanguageFile =
  lf_code :: string
  lf_name :: string
  lf_content :: "string dict"

text \<open>\<^verbatim>\<open>convertLangToBedrock\<close>: one \<^verbatim>\<open>key=value\<close> line per entry, joined by line feeds.\<close>

definition convertLangToBedrock :: "string dict \<Rightarrow> string" where
  "convertLangToBedrock content =
     join_str (map (\<lambda>(key, val). key @ ''='' @ val) content) [CHR 0x0A]"

text \<open>The body of the loop of \<^verbatim>\<open>convertBedrockLangToInternal\<close> for one line.\<close>

definition langLine :: "string dict \<Rightarrow> string \<Rightarrow> string dict" where
  "langLine content line =
     (let trimmed = trim line in
      if trimmed = [] \<or> startsWith trimmed ''#'' \<or> startsWith trimmed ''//'' then content
      else
        let equalIndex = indexOf trimmed (CHR ''='') in
        if equalIndex > 0 then
          assign (trim (substring trimmed 0 equalIndex))
                 (trim (substring_from trimmed (equalIndex + 1))) content
        else content)"

definition convertBedrockLangToInternal :: "string \<Rightarrow> string \<Rightarrow> string \<Rightarrow> LanguageFile" where
  "convertBedrockLangToInternal langContent code name =
     \<lparr> lf_code = code, lf_name = name,
       lf_content = foldl langLine [] (split_str langContent (CHR 0x0A)) \<rparr>"

text \<open>The side conditions of the round trip on a key and on a value.\<close>

definition untrimmed :: "string \<Rightarrow> bool" where
  "untrimmed s = (s \<noteq> [] \<and> (js_whitespace (hd s) \<or> js_whitespace (last s)))"

definition lang_key_ok :: "string \<Rightarrow> bool" where
  "lang_key_ok k =
     (k \<noteq> [] \<and> CHR ''='' \<notin> set k \<and> CHR 0x0A \<notin> set k \<and>
      \<not> startsWith k ''#'' \<and> \<not> startsWith k ''//'' \<and> \<not> untrimmed k)"

definition lang_value_ok :: "string \<Rightarrow> bool" where
  "lang_value_ok v = (CHR 0x0A \<notin> set v \<and> \<not> untrimmed v)"

section \<open>JSON values and files\<close>

text \<open>
  A parsed JSON document. Numbers are the integers (the identifiers, sizes and colour
  components the program computes with); an object lists its own properties in the
  order of enumeration.
\<close>

datatype json =
    JNull
  | JBool bool
  | JNum int
  | JStr string
  | JArr "json list"
  | JObj "(string \<times> json) list"

text \<open>The truth value JavaScript gives a value in a condition.\<close>

fun truthy :: "json \<Rightarrow> bool" where
  "truthy JNull = False"
| "truthy (JBool b) = b"
| "truthy (JNum n) = (n \<noteq> 0)"
| "truthy (JStr s) = (s \<noteq> [])"
| "truthy (JArr xs) = True"
| "truthy (JObj kvs) = True"

text \<open>Reading a property \<^verbatim>\<open>v.k\<close> or \<^verbatim>\<open>v?.k\<close>: \<open>None\<close> is \<^verbatim>\<open>undefined\<close>.\<close>

fun getProp :: "json \<Rightarrow> string \<Rightarrow> json option" where
  "getProp (JObj kvs) k = map_of kvs k"
| "getProp v k = None"

fun isArray :: "json option \<Rightarrow> bool" where
  "isArray (Some (JArr xs)) = True"
| "isArray v = False"

fun arrayItems :: "json option \<Rightarrow> json list" where
  "arrayItems (Some (JArr xs)) = xs"
| "arrayItems v = []"

text \<open>A \<^verbatim>\<open>File\<close> (or \<^verbatim>\<open>Blob\<close>): a name and the bytes.\<close>

record File =
  file_name :: string
  file_data :: string

text \<open>\<^verbatim>\<open>s.replace(/\.[^/.]+$/, "")\<close>: drop a final extension, that is a last dot followed
  by at least one character, none of them a slash.\<close>

definition stripExtension :: "string \<Rightarrow> string" where
  "stripExtension s =
     (let ext = lastSegment s (CHR ''.'') in
      if CHR ''.'' \<in> set s \<and> ext \<noteq> [] \<and> CHR ''/'' \<notin> set ext
      then take (length s - length ext - 1) s else s)"

text \<open>
  The functions of the browser and of libraries the program calls: the \<open>n\<close>-th
  identifier \<^verbatim>\<open>uuidv4\<close> returns, the image probe (\<open>None\<close>: the image never loads and the
  promise of \<^verbatim>\<open>getImageDimensions\<close> never resolves), \<^verbatim>\<open>JSON.parse\<close> (\<open>None\<close>: it
  throws), \<^verbatim>\<open>Date.now\<close>, and the decimal text of a number (\<^verbatim>\<open>Number.prototype.toString\<close>),
  consulted for the numbers that are no safe integers.
\<close>

record env =
  uuidv4 :: "nat \<Rightarrow> string"
  imageSize :: "File \<Rightarrow> (nat \<times> nat) option"
  JSON_parse :: "string \<Rightarrow> json option"
  Date_now :: nat
  Number_toString :: "int \<Rightarrow> string"

section \<open>Numbers as text, and \<^verbatim>\<open>JSON.stringify\<close>\<close>

definition digitChar :: "nat \<Rightarrow> char" where
  "digitChar d = ''0123456789abcdef'' ! (d mod 16)"

fun decimalNat :: "nat \<Rightarrow> string" where
  "decimalNat n = (if n < 10 then [digitChar n] else decimalNat (n div 10) @ [digitChar (n mod 10)])"

fun hexNat :: "nat \<Rightarrow> string" where
  "hexNat n = (if n < 16 then [digitChar n] else hexNat (n div 16) @ [digitChar (n mod 16)])"

declare decimalNat.simps [simp del] hexNat.simps [simp del]

text \<open>The digits of an integer in base ten and in base sixteen, with its sign.\<close>

definition decimal :: "int \<Rightarrow> string" where
  "decimal n = (if n < 0 then ''-'' @ decimalNat (nat (- n)) else decimalNat (nat n))"

definition hexadecimal :: "int \<Rightarrow> string" where
  "hexadecimal n = (if n < 0 then ''-'' @ hexNat (nat (- n)) else hexNat (nat n))"

text \<open>
  \<^verbatim>\<open>String(n)\<close>, the text of a number in a template, in \<^verbatim>\<open>join\<close> and in
  \<^verbatim>\<open>JSON.stringify\<close>. A safe integer (below \<^verbatim>\<open>2^53\<close> in magnitude) is printed with all its
  digits. A greater number is printed with the fewest digits that identify it, padded
  with zeros or followed by an exponent: that text is the platform's.
  \<^verbatim>\<open>n.toString(16)\<close> prints all the digits of any integer.
\<close>

definition safeInteger :: "int \<Rightarrow> bool" where
  "safeInteger n = (\<bar>n\<bar> < 9007199254740992)"

definition numberText :: "env \<Rightarrow> int \<Rightarrow> string" where
  "numberText e n = (if safeInteger n then decimal n else Number_toString e n)"

text \<open>\<^verbatim>\<open>s.padStart(2, "0")\<close>.\<close>

definition padStart2 :: "string \<Rightarrow> string" where
  "padStart2 s = replicate (2 - length s) (CHR ''0'') @ s"

text \<open>A string inside a JSON text: quoted, with the quote, the backslash and the
  control characters escaped.\<close>

definition escapeChar :: "char \<Rightarrow> string" where
  "escapeChar c =
     (if c = CHR 0x22 then [CHR 0x5C, CHR 0x22]
      else if c = CHR 0x5C then [CHR 0x5C, CHR 0x5C]
      else if c = CHR 0x08 then [CHR 0x5C, CHR ''b'']
      else if c = CHR 0x09 then [CHR 0x5C, CHR ''t'']
      else if c = CHR 0x0A then [CHR 0x5C, CHR ''n'']
      else if c = CHR 0x0C then [CHR 0x5C, CHR ''f'']
      else if c = CHR 0x0D then [CHR 0x5C, CHR ''r'']
      else if (of_char c :: nat) < 32
        then [CHR 0x5C, CHR ''u'', CHR ''0'', CHR ''0''] @ padStart2 (hexNat (of_char c))
      else [c])"

definition quote :: "string \<Rightarrow> string" where
  "quote s = [CHR 0x22] @ concat (map escapeChar s) @ [CHR 0x22]"

text \<open>\<^verbatim>\<open>JSON.stringify(v)\<close> without indentation.\<close>

fun stringify :: "env \<Rightarrow> json \<Rightarrow> string" where
  "stringify e JNull = ''null''"
| "stringify e (JBool b) = (if b then ''true'' else ''false'')"
| "stringify e (JNum n) = numberText e n"
| "stringify e (JStr s) = quote s"
| "stringify e (JArr xs) = ''['' @ join_str (map (stringify e) xs) '','' @ '']''"
| "stringify e (JObj kvs) =
     ''{'' @ join_str (map (\<lambda>(k, v). quote k @ '':'' @ stringify e v) kvs) '','' @ ''}''"

section \<open>The asset model (resource-pack/types)\<close>

text \<open>
  Modelled from the spec: the type declarations of \<^verbatim>\<open>resource-pack/types\<close>
  (\<^verbatim>\<open>ResourcePack\<close>, \<^verbatim>\<open>ModelData\<close>, \<^verbatim>\<open>TextureData\<close>, \<^verbatim>\<open>CustomFont\<close>, \<^verbatim>\<open>FontProvider\<close>,
  \<^verbatim>\<open>CustomSound\<close>, \<^verbatim>\<open>CustomParticle\<close>, \<^verbatim>\<open>ShaderFile\<close>, \<^verbatim>\<open>LanguageFile\<close>, \<^verbatim>\<open>MergeConflict\<close>)
  are not among the sources. The records follow the data model of the specification
  and the fields the program reads and writes; an optional field is an \<open>option\<close>. Field
  names carry a prefix, since the records share names.
\<close>

datatype cube_face = Face "int list" "int list" "json option"

record Cube =
  cube_origin :: "int list"
  cube_size :: "int list"
  cube_rotation :: "int list option"
  cube_pivot :: "int list option"
  cube_inflate :: "int option"
  cube_uv :: "cube_face dict"

record Bone =
  bone_name :: string
  bone_pivot :: "int list"
  bone_parent :: "string option"
  bone_rotation :: "int list option"
  bone_cubes :: "Cube list"

record Geometry =
  geo_identifier :: string
  geo_texture_width :: int
  geo_texture_height :: int
  geo_bones :: "Bone list"

text \<open>A cached Platform B geometry: converted from a mesh, or kept verbatim from an
  imported package.\<close>

datatype bedrock_geometry = Converted Geometry | Verbatim json

record ModelData =
  m_id :: string
  m_name :: string
  m_customModelData :: int
  m_parent :: json
  m_textures :: "string dict"
  m_targetItem :: string
  m_customModelDataFloats :: "json list"
  m_customModelDataFlags :: "json list"
  m_customModelDataStrings :: "json list"
  m_customModelDataColors :: "json list"
  m_elements :: "json option"
  m_display :: "json option"
  m_bedrockGeometry :: "bedrock_geometry option"

record Animation =
  an_enabled :: bool
  an_frametime :: "int option"
  an_interpolate :: "bool option"
  an_frames :: "json list option"

record TextureData =
  t_id :: string
  t_name :: string
  t_file :: File
  t_path :: string
  t_size :: nat
  t_dimensions :: "nat \<times> nat"
  t_isOptimized :: bool
  t_width :: "nat option"
  t_height :: "nat option"
  t_enabled :: "bool option"
  t_animation :: "Animation option"

record FontProvider =
  p_id :: string
  p_type :: string
  p_file :: "string option"
  p_fileHandle :: "File option"
  p_ascent :: "int option"
  p_height :: "int option"
  p_chars :: "string list option"
  p_advances :: "int dict option"
  p_size :: "int option"
  p_oversample :: "int option"
  p_shift :: "int list option"
  p_skip :: "string list option"

record CustomFont =
  f_id :: string
  f_name :: string
  f_providers :: "FontProvider list"
  f_file :: "File option"

record CustomSound =
  s_id :: string
  s_name :: string
  s_category :: string
  s_sounds :: "string list"
  s_subtitle :: "string option"
  s_replace :: "bool option"
  s_file :: "File option"

record CustomParticle =
  pt_id :: string
  pt_name :: string
  pt_textures :: "string list"
  pt_file :: "File option"

datatype shader_type = Vertex | Fragment | Program

record ShaderFile =
  sh_id :: string
  sh_name :: string
  sh_type :: shader_type
  sh_file :: "File option"
  sh_content :: "string option"

record ResourcePack =
  name :: string
  description :: string
  version :: string
  format :: int
  models :: "ModelData list"
  textures :: "TextureData list"
  fonts :: "CustomFont list"
  sounds :: "CustomSound list"
  languages :: "LanguageFile list"
  particles :: "CustomParticle list"
  shaders :: "ShaderFile list"
  packIcon :: "File option"
  author :: string
  website :: string
  license :: string

section \<open>Validation\<close>

record validation =
  isValid :: bool
  errors :: "string list"

text \<open>\<^verbatim>\<open>validateModel\<close>: the four checks, in order.\<close>

definition validateModel :: "ModelData \<Rightarrow> validation" where
  "validateModel model =
     (let errors =
        (if trim (m_name model) = [] then [''Model name is required''] else []) @
        (if m_customModelData model = 0 \<or> m_customModelData model < 1
         then [''Valid custom model data is required''] else []) @
        (if trim (m_targetItem model) = [] then [''Target item is required''] else []) @
        (if length (m_textures model) = 0 then [''At least one texture is required''] else [])
      in \<lparr> isValid = (length errors = 0), errors = errors \<rparr>)"

text \<open>The \<^verbatim>\<open>reduce\<close> of \<^verbatim>\<open>validateResourcePack\<close>: the identifiers of the models of each
  target item, in order. \<open>None\<close>: the callback throws.\<close>

definition targetItemGroups :: "ModelData list \<Rightarrow> (int list) dict option" where
  "targetItemGroups ms =
     foldl (\<lambda>acc model. Option.bind acc (pushTo (m_targetItem model) (m_customModelData model)))
       (Some []) ms"

text \<open>\<^verbatim>\<open>xs.indexOf(v)\<close> on an array, and the values that stand at a later index than
  their first occurrence.\<close>

definition arrayIndexOf :: "'a list \<Rightarrow> 'a \<Rightarrow> int" where
  "arrayIndexOf xs v = (if v \<in> set xs then int (length (takeWhile (\<lambda>x. x \<noteq> v) xs)) else - 1)"

definition duplicates :: "int list \<Rightarrow> int list" where
  "duplicates dataValues =
     map fst (filter (\<lambda>(v, index). arrayIndexOf dataValues v \<noteq> int index)
                (zip dataValues [0 ..< length dataValues]))"

definition duplicateError :: "env \<Rightarrow> string \<Rightarrow> int list \<Rightarrow> string" where
  "duplicateError e item ds =
     ''Duplicate custom model data for '' @ item @ '': '' @ join_str (map (numberText e) ds) '', ''"

text \<open>\<^verbatim>\<open>validateResourcePack\<close>. \<open>None\<close>: the grouping throws, and so does the function.\<close>

definition validateResourcePack :: "env \<Rightarrow> ResourcePack \<Rightarrow> validation option" where
  "validateResourcePack e pack =
     (case targetItemGroups (models pack) of
        None \<Rightarrow> None
      | Some groups \<Rightarrow>
          let errors =
            (if trim (name pack) = [] then [''Pack name is required''] else []) @
            (if trim (description pack) = [] then [''Pack description is required''] else []) @
            (if length (models pack) = 0 then [''At least one model is required''] else []) @
            concat (map (\<lambda>(item, dataValues).
                      if length (duplicates dataValues) > 0
                      then [duplicateError e item (duplicates dataValues)] else [])
                   groups)
          in Some \<lparr> isValid = (length errors = 0), errors = errors \<rparr>)"

text \<open>The error list \<^verbatim>\<open>validatePack\<close> collects: the pack's errors, then each model's,
  prefixed by the model's name.\<close>

definition validatePackErrors :: "env \<Rightarrow> ResourcePack \<Rightarrow> string list option" where
  "validatePackErrors e pack =
     (case validateResourcePack e pack of
        None \<Rightarrow> None
      | Some packValidation \<Rightarrow>
          Some (errors packValidation @
                concat (map (\<lambda>model. map (\<lambda>err. m_name model @ '': '' @ err)
                                        (errors (validateModel model)))
                          (models pack))))"

section \<open>Archives and the application state\<close>

text \<open>
  What \<^verbatim>\<open>zip.file(path, content)\<close> stores: a JSON document (the program writes
  \<^verbatim>\<open>JSON.stringify(doc, null, 2)\<close>; the document stands for its text), a text, a binary
  file, a geometry document, or the README, whose text (it carries the wall-clock time)
  is not modelled. An archive under construction is a dictionary from paths to contents;
  the folder entries the library adds for the parent folders of a path are left out.
\<close>

datatype zcontent =
    Json json
  | Text string
  | Binary File
  | GeometryDoc bedrock_geometry
  | Readme

type_synonym zip = "zcontent dict"

type_synonym zwrite = "string \<times> zcontent"

definition zip_files :: "zip \<Rightarrow> zwrite list \<Rightarrow> zip" where
  "zip_files z ws = foldl (\<lambda>z (path, c). AList.update path c z) z ws"

text \<open>An archive the user supplies: \<^verbatim>\<open>JSZip.loadAsync\<close> rejects it, or yields its
  entries (\<^verbatim>\<open>zip.files\<close>, keyed by path) in the order of its index.\<close>

record ZipEntry =
  ze_path :: string
  ze_dir :: bool
  ze_data :: string

datatype archive = Unreadable | Archive "ZipEntry list"

record MergePack =
  mp_name :: string
  mp_file :: archive

datatype resolution = Overwrite | Skip | Rename

record MergeConflict =
  mc_path :: string
  mc_packs :: "(string \<times> File) list"
  mc_resolution :: resolution

datatype edition = Java | Bedrock

datatype alert =
    ValidationFailed "string list"
  | PackGenerated
  | MergeFailed
  | MergeDone nat nat
  | ValidationPassedAlert
  | ValidationFailedAlert

text \<open>
  The component's state: the asset model and the merge inputs, with what the program
  shows (\<^verbatim>\<open>alert\<close>) and offers for download. The progress bar and the console are not
  modelled. \<open>uuidsDrawn\<close> counts the calls of \<^verbatim>\<open>uuidv4\<close> so far.
\<close>

record app =
  resourcePack :: ResourcePack
  packEdition :: edition
  isProcessing :: bool
  mergePacks :: "MergePack list"
  mergeConflicts :: "MergeConflict list"
  validationResults :: "validation option"
  alerts :: "alert list"
  downloads :: "(string \<times> zip) list"
  uuidsDrawn :: nat

section \<open>Export (\<^verbatim>\<open>generateZip\<close>)\<close>

definition validModels :: "ResourcePack \<Rightarrow> ModelData list" where
  "validModels pack =
     filter (\<lambda>m. m_customModelData m \<noteq> 0 \<and> m_targetItem m \<noteq> []) (models pack)"

text \<open>\<open>v || d\<close> on an optional number and on a string.\<close>

definition numOr :: "int option \<Rightarrow> int \<Rightarrow> int" where
  "numOr v d = (case v of None \<Rightarrow> d | Some n \<Rightarrow> if n = 0 then d else n)"

definition strOr :: "string \<Rightarrow> string \<Rightarrow> string" where
  "strOr s d = (if s = [] then d else s)"

subsection \<open>Item definitions\<close>

text \<open>The \<^verbatim>\<open>reduce\<close> that groups the models by target item. \<open>None\<close>: the callback
  throws.\<close>

definition itemGroups :: "ModelData list \<Rightarrow> (ModelData list) dict option" where
  "itemGroups ms =
     foldl (\<lambda>acc model. Option.bind acc (pushTo (m_targetItem model) model)) (Some []) ms"

text \<open>\<^verbatim>\<open>[...models].sort((a, b) => a.customModelData - b.customModelData)\<close>: the sort is
  stable, as \<^const>\<open>sort_key\<close> is.\<close>

definition sortedModels :: "ModelData list \<Rightarrow> ModelData list" where
  "sortedModels ms = sort_key m_customModelData ms"

definition dispatchEntry :: "ModelData \<Rightarrow> json" where
  "dispatchEntry model =
     JObj [(''threshold'', JNum (m_customModelData model)),
           (''model'', JObj [(''type'', JStr ''minecraft:model''),
                            (''model'', JStr (''minecraft:item/'' @ m_name model))])]"

definition itemDef :: "string \<Rightarrow> ModelData list \<Rightarrow> json" where
  "itemDef itemName ms =
     JObj [(''model'', JObj
       [(''type'', JStr ''minecraft:range_dispatch''),
        (''property'', JStr ''minecraft:custom_model_data''),
        (''index'', JNum 0),
        (''fallback'', JObj [(''type'', JStr ''minecraft:model''),
                             (''model'', JStr (''minecraft:item/'' @ itemName))]),
        (''entries'', JArr (map dispatchEntry ms))])]"

definition overrideEntry :: "ModelData \<Rightarrow> json" where
  "overrideEntry model =
     JObj [(''predicate'', JObj [(''custom_model_data'', JNum (m_customModelData model))]),
           (''model'', JStr (''minecraft:item/'' @ m_name model))]"

definition itemModel :: "string \<Rightarrow> ModelData list \<Rightarrow> json" where
  "itemModel itemName ms =
     JObj [(''parent'', JStr ''item/generated''),
           (''textures'', JObj [(''layer0'', JStr (''minecraft:item/'' @ itemName))]),
           (''overrides'', JArr (map overrideEntry ms))]"

text \<open>The loop over the groups: one selection document per target item, a dispatch
  document from format 48 on and a legacy override list below.\<close>

definition itemDefinitionFiles :: "ResourcePack \<Rightarrow> zwrite list option" where
  "itemDefinitionFiles pack =
     map_option
       (map (\<lambda>(itemName, ms).
               if format pack \<ge> 48
               then (''assets/minecraft/items/'' @ itemName @ ''.json'',
                     Json (itemDef itemName (sortedModels ms)))
               else (''assets/minecraft/models/item/'' @ itemName @ ''.json'',
                     Json (itemModel itemName (sortedModels ms)))))
       (itemGroups (validModels pack))"

subsection \<open>Model documents\<close>

definition modelJson :: "ModelData \<Rightarrow> json" where
  "modelJson model =
     JObj ([(''parent'', if truthy (m_parent model) then m_parent model else JStr ''item/generated''),
            (''textures'', JObj (foldl (\<lambda>obj (layer, textureName).
                 assign layer (JStr (''minecraft:item/'' @ textureName)) obj) [] (m_textures model)))]
           @ (case m_elements model of
                Some e \<Rightarrow> if truthy e then [(''elements'', e)] else []
              | None \<Rightarrow> [])
           @ (case m_display model of
                Some d \<Rightarrow> if truthy d then [(''display'', d)] else []
              | None \<Rightarrow> []))"

definition modelFiles :: "ResourcePack \<Rightarrow> zwrite list" where
  "modelFiles pack =
     map (\<lambda>model. (''assets/minecraft/models/item/'' @ m_name model @ ''.json'',
                    Json (modelJson model)))
         (validModels pack)"

subsection \<open>Textures\<close>

definition animationMcmeta :: "Animation \<Rightarrow> json" where
  "animationMcmeta a =
     JObj [(''animation'', JObj (
        (case an_frametime a of Some ft \<Rightarrow> [(''frametime'', JNum ft)] | None \<Rightarrow> []) @
        (case an_interpolate a of Some i \<Rightarrow> [(''interpolate'', JBool i)] | None \<Rightarrow> []) @
        (case an_frames a of
           Some fs \<Rightarrow> if length fs > 0 then [(''frames'', JArr fs)] else []
         | None \<Rightarrow> [])))]"

definition textureFiles :: "ResourcePack \<Rightarrow> zwrite list" where
  "textureFiles pack =
     concat (map (\<lambda>texture.
        let textureName = stripExtension (t_name texture) in
        (''assets/minecraft/textures/item/'' @ textureName @ ''.png'', Binary (t_file texture)) #
        (case t_animation texture of
           Some a \<Rightarrow>
             if an_enabled a
             then [(''assets/minecraft/textures/item/'' @ textureName @ ''.png.mcmeta'',
                    Json (animationMcmeta a))]
             else []
         | None \<Rightarrow> []))
       (textures pack))"

subsection \<open>Fonts\<close>

text \<open>The regular expressions of the font export. A dot of a pattern matches any code
  unit but a line terminator; \<^verbatim>\<open>(.+)\<close> is greedy, so the longest run that lets the rest
  of the pattern match is taken, at the leftmost position where the pattern matches.\<close>

definition lineTerminator :: "char \<Rightarrow> bool" where
  "lineTerminator c = (c = CHR 0x0A \<or> c = CHR 0x0D)"

definition greedyThen :: "string \<Rightarrow> string \<Rightarrow> string option" where
  "greedyThen s lit =
     (let run = takeWhile (\<lambda>c. \<not> lineTerminator c) s in
      map_option (\<lambda>n. take n s)
        (find (\<lambda>n. startsWith (drop n s) lit) (rev [1 ..< Suc (length run)])))"

definition greedyDotRest :: "string \<Rightarrow> (string \<times> string) option" where
  "greedyDotRest s =
     (if list_ex lineTerminator s then None
      else map_option (\<lambda>n. (take n s, drop (Suc n) s))
             (find (\<lambda>n. s ! n = CHR ''.'') (rev [1 ..< length s - 1])))"

text \<open>\<^verbatim>\<open>s.match(/minecraft:font\/(.+)\.png/)\<close>: the first group.\<close>

fun matchFontPng :: "string \<Rightarrow> string option" where
  "matchFontPng [] = None"
| "matchFontPng (c # cs) =
     (if startsWith (c # cs) ''minecraft:font/''
      then (case greedyThen (drop 15 (c # cs)) ''.png'' of
              Some g \<Rightarrow> Some g
            | None \<Rightarrow> matchFontPng cs)
      else matchFontPng cs)"

text \<open>\<^verbatim>\<open>s.match(/minecraft:font\/(.+)\.(.+)$/)\<close>: the two groups.\<close>

fun matchFontFile :: "string \<Rightarrow> (string \<times> string) option" where
  "matchFontFile [] = None"
| "matchFontFile (c # cs) =
     (if startsWith (c # cs) ''minecraft:font/''
      then (case greedyDotRest (drop 15 (c # cs)) of
              Some g \<Rightarrow> Some g
            | None \<Rightarrow> matchFontFile cs)
      else matchFontFile cs)"

text \<open>\<^verbatim>\<open>toLowerCase\<close> on the code units below 256.\<close>

definition lowerChar :: "char \<Rightarrow> char" where
  "lowerChar c =
     (let n = (of_char c :: nat) in
      if (65 \<le> n \<and> n \<le> 90) \<or> (192 \<le> n \<and> n \<le> 222 \<and> n \<noteq> 215)
      then char_of (n + 32) else c)"

definition toLowerCase :: "string \<Rightarrow> string" where
  "toLowerCase s = map lowerChar s"

text \<open>\<^verbatim>\<open>name.split(".").pop()?.toLowerCase()\<close>.\<close>

definition lowerExtension :: "string \<Rightarrow> string" where
  "lowerExtension s = toLowerCase (lastSegment s (CHR ''.''))"

text \<open>
  The serialization of one provider: its JSON and the source files it writes. A bitmap
  or ttf provider takes its own uploaded file when it has one and the font's file
  otherwise.
\<close>

definition bitmapProvider :: "CustomFont \<Rightarrow> FontProvider \<Rightarrow> json dict \<times> zwrite list" where
  "bitmapProvider font provider =
     (let filename =
            (case p_fileHandle provider of
               Some h \<Rightarrow> stripExtension (file_name h)
             | None \<Rightarrow>
                 (case p_file provider of
                    Some f \<Rightarrow> (if f = [] then f_name font
                               else (case matchFontPng f of Some g \<Rightarrow> g | None \<Rightarrow> f_name font))
                  | None \<Rightarrow> f_name font))
      in ([(''file'', JStr (''minecraft:font/'' @ filename @ ''.png'')),
           (''ascent'', JNum (numOr (p_ascent provider) 8)),
           (''height'', JNum (numOr (p_height provider) 8))]
          @ (case p_chars provider of
               Some cs \<Rightarrow> [(''chars'', JArr (map JStr cs))]
             | None \<Rightarrow> []),
          (case p_fileHandle provider of
             Some h \<Rightarrow> [(''assets/minecraft/textures/font/'' @ file_name h, Binary h)]
           | None \<Rightarrow>
               (case f_file font of
                  Some ff \<Rightarrow>
                    if endsWith (toLowerCase (file_name ff)) ''.png''
                    then [(''assets/minecraft/textures/font/'' @ filename @ ''.png'', Binary ff)]
                    else []
                | None \<Rightarrow> []))))"

definition fontFileExtension :: "CustomFont \<Rightarrow> string option" where
  "fontFileExtension font =
     (case f_file font of
        Some ff \<Rightarrow>
          (let ext = lowerExtension (file_name ff) in
           if ext \<noteq> [] \<and> ext \<in> set [''ttf'', ''otf''] then Some ext else None)
      | None \<Rightarrow> None)"

definition ttfProvider :: "CustomFont \<Rightarrow> FontProvider \<Rightarrow> json dict \<times> zwrite list" where
  "ttfProvider font provider =
     (let fromFont =
            (case fontFileExtension font of
               Some ext \<Rightarrow> (f_name font, ext)
             | None \<Rightarrow> (f_name font, ''ttf''));
          (filename, extension) =
            (case p_fileHandle provider of
               Some h \<Rightarrow> (stripExtension (file_name h), strOr (lowerExtension (file_name h)) ''ttf'')
             | None \<Rightarrow>
                 (case p_file provider of
                    Some f \<Rightarrow>
                      (if f = [] then fromFont
                       else (case matchFontFile f of
                               Some (g1, g2) \<Rightarrow> (g1, g2)
                             | None \<Rightarrow> (f_name font, ''ttf'')))
                  | None \<Rightarrow> fromFont))
      in ([(''file'', JStr (''minecraft:font/'' @ filename @ ''.'' @ extension)),
           (''size'', JNum (numOr (p_size provider) 11)),
           (''oversample'', JNum (numOr (p_oversample provider) 1))]
          @ (case p_shift provider of
               Some sh \<Rightarrow> [(''shift'', JArr (map JNum sh))]
             | None \<Rightarrow> [])
          @ (case p_skip provider of
               Some sk \<Rightarrow> [(''skip'', JArr (map JStr sk))]
             | None \<Rightarrow> []),
          (case p_fileHandle provider of
             Some h \<Rightarrow> [(''assets/minecraft/font/'' @ file_name h, Binary h)]
           | None \<Rightarrow>
               (case f_file font of
                  Some ff \<Rightarrow>
                    if fontFileExtension font \<noteq> None
                    then [(''assets/minecraft/font/'' @ filename @ ''.'' @ extension, Binary ff)]
                    else []
                | None \<Rightarrow> []))))"

definition providerJson :: "CustomFont \<Rightarrow> FontProvider \<Rightarrow> json \<times> zwrite list" where
  "providerJson font provider =
     (let (fields, files) =
        (if p_type provider = ''bitmap'' then bitmapProvider font provider
         else if p_type provider = ''ttf'' then ttfProvider font provider
         else if p_type provider = ''space'' then
           ([(''advances'',
              JObj (case p_advances provider of
                      Some adv \<Rightarrow> map (\<lambda>(ch, n). (ch, JNum n)) adv
                    | None \<Rightarrow> []))], [])
         else if p_type provider = ''unihex'' then
           ([(''hex_file'',
              JStr (case p_file provider of
                      Some f \<Rightarrow> strOr f ''minecraft:font/unifont.hex''
                    | None \<Rightarrow> ''minecraft:font/unifont.hex'')),
             (''size_overrides'', JArr [])], [])
         else ([], []))
      in (JObj ((''type'', JStr (p_type provider)) # fields), files))"

definition fontJson :: "CustomFont \<Rightarrow> json" where
  "fontJson font = JObj [(''providers'', JArr (map (\<lambda>p. fst (providerJson font p)) (f_providers font)))]"

text \<open>A font writes the source files of its providers, then its own document.\<close>

definition fontFiles :: "ResourcePack \<Rightarrow> zwrite list" where
  "fontFiles pack =
     concat (map (\<lambda>font.
        concat (map (\<lambda>p. snd (providerJson font p)) (f_providers font)) @
        [(''assets/minecraft/font/'' @ f_name font @ ''.json'', Json (fontJson font))])
       (fonts pack))"

subsection \<open>Sounds, languages, particles, shaders\<close>

definition convertSoundsToJava :: "CustomSound list \<Rightarrow> json dict" where
  "convertSoundsToJava ss =
     foldl (\<lambda>javaSounds sound.
        assign (s_name sound)
          (JObj ([(''category'', JStr (s_category sound)),
                  (''sounds'', JArr (map (\<lambda>s. JObj [(''name'', JStr s), (''type'', JStr ''sound'')])
                                       (s_sounds sound)))]
                 @ (case s_subtitle sound of
                      Some st \<Rightarrow> if st \<noteq> [] then [(''subtitle'', JStr st)] else []
                    | None \<Rightarrow> [])
                 @ (case s_replace sound of
                      Some r \<Rightarrow> [(''replace'', JBool r)]
                    | None \<Rightarrow> [])))
          javaSounds)
       [] ss"

definition convertSoundsToBedrock :: "CustomSound list \<Rightarrow> json dict" where
  "convertSoundsToBedrock ss =
     [(''format_version'', JStr ''1.14.0''),
      (''sound_definitions'', JObj (foldl (\<lambda>defs sound.
         assign (s_name sound)
           (JObj ([(''category'', JStr (s_category sound)),
                   (''sounds'', JArr (map (\<lambda>s. JObj [(''name'', JStr (''sounds/'' @ s)),
                                                       (''volume'', JNum 1), (''pitch'', JNum 1),
                                                       (''load_on_low_memory'', JBool True)])
                                        (s_sounds sound)))]
                  @ (case s_subtitle sound of
                       Some st \<Rightarrow> if st \<noteq> [] then [(''__subtitle'', JStr st)] else []
                     | None \<Rightarrow> [])))
           defs)
        [] ss))]"

definition convertLangToJava :: "string dict \<Rightarrow> string dict" where
  "convertLangToJava content = content"

text \<open>The audio file of a sound, under the given folder.\<close>

definition soundAudio :: "string \<Rightarrow> CustomSound \<Rightarrow> zwrite list" where
  "soundAudio folder sound =
     (case s_file sound of
        Some f \<Rightarrow> [(folder @ s_name sound @ ''.'' @ lastSegment (file_name f) (CHR ''.''), Binary f)]
      | None \<Rightarrow> [])"

definition soundFiles :: "edition \<Rightarrow> ResourcePack \<Rightarrow> zwrite list" where
  "soundFiles ed pack =
     (if length (sounds pack) > 0 then
        (if ed = Bedrock
         then (''sounds/sound_definitions.json'', Json (JObj (convertSoundsToBedrock (sounds pack)))) #
              concat (map (soundAudio ''sounds/'') (sounds pack))
         else (''assets/minecraft/sounds.json'', Json (JObj (convertSoundsToJava (sounds pack)))) #
              concat (map (soundAudio ''assets/minecraft/sounds/'') (sounds pack)))
      else [])"

text \<open>\<^verbatim>\<open>code.replace("_", "_").replace(/_(\w+)/, ...)\<close>: the word characters after the
  first underscore that has one behind it, in upper case (word characters are ASCII).\<close>

definition wordChar :: "char \<Rightarrow> bool" where
  "wordChar c =
     (let n = (of_char c :: nat) in
      (48 \<le> n \<and> n \<le> 57) \<or> (65 \<le> n \<and> n \<le> 90) \<or> (97 \<le> n \<and> n \<le> 122) \<or> n = 95)"

definition upperChar :: "char \<Rightarrow> char" where
  "upperChar c =
     (let n = (of_char c :: nat) in
      if 97 \<le> n \<and> n \<le> 122 then char_of (n - 32) else c)"

fun bedrockCode :: "string \<Rightarrow> string" where
  "bedrockCode [] = []"
| "bedrockCode [c] = [c]"
| "bedrockCode (c # d # cs) =
     (if c = CHR ''_'' \<and> wordChar d
      then c # map upperChar (takeWhile wordChar (d # cs)) @ dropWhile wordChar (d # cs)
      else c # bedrockCode (d # cs))"

definition languageFiles :: "edition \<Rightarrow> ResourcePack \<Rightarrow> zwrite list" where
  "languageFiles ed pack =
     map (\<lambda>lang.
        if ed = Bedrock
        then (''texts/'' @ bedrockCode (lf_code lang) @ ''.lang'',
              Text (convertLangToBedrock (lf_content lang)))
        else (''assets/minecraft/lang/'' @ lf_code lang @ ''.json'',
              Json (JObj (map (\<lambda>(k, v). (k, JStr v)) (convertLangToJava (lf_content lang))))))
       (languages pack)"

definition particleFiles :: "edition \<Rightarrow> ResourcePack \<Rightarrow> zwrite list" where
  "particleFiles ed pack =
     concat (map (\<lambda>particle.
        if ed = Bedrock then
          (case pt_file particle of
             Some f \<Rightarrow> [(''textures/particle/'' @ pt_name particle @ ''.png'', Binary f)]
           | None \<Rightarrow> []) @
          [(''particles/'' @ pt_name particle @ ''.json'',
            Json (JObj [(''format_version'', JStr ''1.10.0''),
                        (''particle_effect'', JObj
                           [(''description'', JObj
                               [(''identifier'', JStr (''custom:'' @ pt_name particle)),
                                (''basic_render_parameters'', JObj
                                   [(''material'', JStr ''particles_alpha''),
                                    (''texture'', JStr (''textures/particle/'' @ pt_name particle))])]),
                            (''components'', JObj [])])]))]
        else
          (''assets/minecraft/particles/'' @ pt_name particle @ ''.json'',
           Json (JObj [(''textures'',
                        JArr (map (\<lambda>t. JStr (''minecraft:particle/'' @ t)) (pt_textures particle)))])) #
          (case pt_file particle of
             Some f \<Rightarrow> [(''assets/minecraft/textures/particle/'' @ pt_name particle @ ''.png'', Binary f)]
           | None \<Rightarrow> []))
       (particles pack))"

definition shaderFiles :: "edition \<Rightarrow> ResourcePack \<Rightarrow> zwrite list" where
  "shaderFiles ed pack =
     concat (map (\<lambda>shader.
        if ed = Java then
          (let extension = (if sh_type shader = Program then ''.json''
                            else if sh_type shader = Vertex then ''.vsh'' else ''.fsh'');
               folder = (if sh_type shader = Program then ''program'' else ''core'');
               path = ''assets/minecraft/shaders/'' @ folder @ ''/'' @ sh_name shader @ extension
           in (case sh_file shader of
                 Some f \<Rightarrow> [(path, Binary f)]
               | None \<Rightarrow>
                   (case sh_content shader of
                      Some c \<Rightarrow> if c \<noteq> [] then [(path, Text c)] else []
                    | None \<Rightarrow> [])))
        else
          (case sh_file shader of
             Some f \<Rightarrow>
               [(''shaders/glsl/'' @ sh_name shader @ ''.'' @
                   strOr (lastSegment (file_name f) (CHR ''.'')) ''bin'', Binary f)]
           | None \<Rightarrow> []))
       (shaders pack))"

subsection \<open>The companion-runtime mapping\<close>

text \<open>\<^verbatim>\<open>s.replace(/^.*\//, "")\<close>: drop everything up to the last slash of the first
  line.\<close>

definition afterLastSlash :: "string \<Rightarrow> string" where
  "afterLastSlash s =
     (let run = takeWhile (\<lambda>c. \<not> lineTerminator c) s in
      if CHR ''/'' \<in> set run
      then drop (length run - length (lastSegment run (CHR ''/''))) s
      else s)"

definition geyserIcon :: "ModelData \<Rightarrow> string" where
  "geyserIcon model =
     (case m_textures model of
        [] \<Rightarrow> m_name model
      | (layer, t) # rest \<Rightarrow> strOr (stripExtension (afterLastSlash t)) (m_name model))"

definition geyserEntry :: "ModelData \<Rightarrow> json" where
  "geyserEntry model =
     JObj [(''custom_model_data'', JNum (m_customModelData model)),
           (''display_name'', JStr (m_name model)),
           (''icon'', JStr (geyserIcon model)),
           (''allow_offhand'', JBool True),
           (''texture_size'', JNum 16),
           (''creative_category'', JNum 1),
           (''creative_group'', JStr ''custom_items''),
           (''tags'', JArr [JStr ''custom_item''])]"

definition generateGeyserMapping :: "ResourcePack \<Rightarrow> json" where
  "generateGeyserMapping pack =
     JObj [(''format_version'', JNum 1),
           (''items'', JObj (foldl (\<lambda>items model.
              let javaItem = ''minecraft:'' @ m_targetItem model;
                  items' = (if map_of items javaItem = None
                            then assign javaItem (JArr []) items else items)
              in AList.map_entry javaItem (\<lambda>l. JArr (arrayItems (Some l) @ [geyserEntry model])) items')
             [] (validModels pack)))]"

subsection \<open>The two archives and \<^verbatim>\<open>generateZip\<close>\<close>

definition packMcmeta :: "ResourcePack \<Rightarrow> json" where
  "packMcmeta pack =
     JObj [(''pack'', JObj [(''pack_format'', JNum (format pack)),
                           (''description'', JStr (strOr (description pack) ''Generated Resource Pack''))])]"

text \<open>The writes of the Platform A (Java) branch, in the order the program makes them.\<close>

definition javaFiles :: "edition \<Rightarrow> ResourcePack \<Rightarrow> zwrite list option" where
  "javaFiles ed pack =
     (case itemDefinitionFiles pack of
        None \<Rightarrow> None
      | Some itemDefinitions \<Rightarrow>
          Some (
            [(''pack.mcmeta'', Json (packMcmeta pack))] @
            (case packIcon pack of Some icon \<Rightarrow> [(''pack.png'', Binary icon)] | None \<Rightarrow> []) @
            [(''README.md'', Readme)] @
            itemDefinitions @
            modelFiles pack @
            textureFiles pack @
            (if length (fonts pack) > 0 then fontFiles pack else []) @
            soundFiles ed pack @
            (if length (languages pack) > 0 then languageFiles ed pack else []) @
            (if length (particles pack) > 0 then particleFiles ed pack else []) @
            (if length (shaders pack) > 0 then shaderFiles ed pack else []) @
            [(''geyser_mappings.json'', Json (generateGeyserMapping pack))]))"

definition manifest :: "ResourcePack \<Rightarrow> string \<Rightarrow> string \<Rightarrow> json" where
  "manifest pack uuid1 uuid2 =
     JObj [(''format_version'', JNum 2),
           (''header'', JObj [(''name'', JStr (name pack)),
                             (''description'', JStr (description pack)),
                             (''uuid'', JStr uuid1),
                             (''version'', JArr [JNum 1, JNum 0, JNum 0]),
                             (''min_engine_version'', JArr [JNum 1, JNum 21, JNum 0])]),
           (''modules'', JArr [JObj [(''type'', JStr ''resources''),
                                    (''uuid'', JStr uuid2),
                                    (''version'', JArr [JNum 1, JNum 0, JNum 0])]])]"

definition attachable :: "ModelData \<Rightarrow> json" where
  "attachable model =
     JObj [(''format_version'', JStr ''1.10.0''),
           (''minecraft:attachable'', JObj [(''description'', JObj
              [(''identifier'', JStr (''custom:'' @ m_name model)),
               (''materials'', JObj [(''default'', JStr ''entity_alphatest'')]),
               (''textures'', JObj [(''default'', JStr (''textures/entity/'' @ m_name model))]),
               (''geometry'', JObj [(''default'', JStr (''geometry.'' @ m_name model))]),
               (''render_controllers'', JArr [JStr ''controller.render.default'']),
               (''scripts'', JObj [(''parent_setup'', JStr ''variable.item_slot = 0;'')])])])]"

fun geometryPresent :: "bedrock_geometry option \<Rightarrow> bool" where
  "geometryPresent None = False"
| "geometryPresent (Some (Converted g)) = True"
| "geometryPresent (Some (Verbatim j)) = truthy j"

text \<open>The writes of the Platform B (Bedrock) branch; a model without a geometry is
  skipped.\<close>

definition bedrockFiles :: "string \<Rightarrow> string \<Rightarrow> ResourcePack \<Rightarrow> zwrite list" where
  "bedrockFiles uuid1 uuid2 pack =
     [(''manifest.json'', Json (manifest pack uuid1 uuid2))] @
     (case packIcon pack of Some icon \<Rightarrow> [(''pack_icon.png'', Binary icon)] | None \<Rightarrow> []) @
     concat (map (\<lambda>model.
        (case m_bedrockGeometry model of
           Some g \<Rightarrow>
             if geometryPresent (Some g)
             then [(''models/entity/'' @ m_name model @ ''.geo.json'', GeometryDoc g),
                   (m_name model @ ''.attachable.json'', Json (attachable model))]
             else []
         | None \<Rightarrow> []))
       (validModels pack)) @
     map (\<lambda>texture. (''textures/entity/'' @ stripExtension (t_name texture) @ ''.png'',
                      Binary (t_file texture)))
         (textures pack) @
     [(''README.txt'', Readme)] @
     [(''geyser_mappings.json'', Json (generateGeyserMapping pack))]"

text \<open>
  \<^verbatim>\<open>generateZip\<close>: the pack-level validation gates the export; then the archive of the
  chosen edition is built and offered for download under the pack's name. Nothing
  catches an exception: the function stops where it is thrown, with the processing flag
  still set.
\<close>

definition generateZip :: "env \<Rightarrow> app \<Rightarrow> app" where
  "generateZip e st =
     (let pack = resourcePack st in
      case validateResourcePack e pack of
        None \<Rightarrow> st\<lparr> isProcessing := True \<rparr>
      | Some validation \<Rightarrow>
          if \<not> isValid validation
          then st\<lparr> isProcessing := False,
                   alerts := alerts st @ [ValidationFailed (errors validation)] \<rparr>
          else
            let n = uuidsDrawn st;
                files = (if packEdition st = Bedrock
                         then Some (bedrockFiles (uuidv4 e n) (uuidv4 e (n + 1)) pack)
                         else javaFiles (packEdition st) pack);
                packName = strOr (name pack) ''resource-pack'';
                editionSuffix = (if packEdition st = Bedrock then ''-bedrock'' else [])
            in case files of
                 None \<Rightarrow> st\<lparr> isProcessing := True \<rparr>
               | Some fs \<Rightarrow>
                   st\<lparr> isProcessing := False,
                       uuidsDrawn := (if packEdition st = Bedrock then n + 2 else n),
                       downloads := downloads st @ [(packName @ editionSuffix @ ''.zip'', zip_files [] fs)],
                       alerts := alerts st @ [PackGenerated] \<rparr>)"

text \<open>\<^verbatim>\<open>validatePack\<close>: the collected errors become the validation result.\<close>

definition validatePack :: "env \<Rightarrow> app \<Rightarrow> app" where
  "validatePack e st =
     (case validatePackErrors e (resourcePack st) of
        None \<Rightarrow> st\<lparr> isProcessing := True \<rparr>
      | Some allErrors \<Rightarrow>
          st\<lparr> isProcessing := False,
              validationResults := Some \<lparr> isValid = (length allErrors = 0), errors = allErrors \<rparr>,
              alerts := alerts st @ [if length allErrors = 0 then ValidationPassedAlert
                                     else ValidationFailedAlert] \<rparr>)"

subsection \<open>Reading a selection document\<close>






section \<open>Geometry conversion (\<^verbatim>\<open>convertToBedrock\<close>)\<close>

text \<open>
  The mesh document the converter reads. An item of the node tree (\<^verbatim>\<open>outliner\<close>) is
  \<^verbatim>\<open>null\<close>, a string (the identifier of an element) or a group node with optional name,
  origin, rotation and children; the children of a group are items again. An element
  has optional corner vectors, rotation, origin, inflate and faces; a face has an
  optional UV rectangle and texture index. Coordinates are integers.
\<close>

datatype outliner =
    NullItem
  | Ref string
  | Node (n_name: "string option") (n_origin: "int list option")
         (n_rotation: "int list option") (n_children: "outliner list option")

record FaceData =
  fd_uv :: "(int \<times> int \<times> int \<times> int) option"
  fd_texture :: "json option"

record Element =
  e_uuid :: string
  e_from :: "int list option"
  e_to :: "int list option"
  e_rotation :: "int list option"
  e_origin :: "int list option"
  e_inflate :: "int option"
  e_faces :: "(FaceData option) dict option"

record BBModel =
  bb_width :: "int option"
  bb_height :: "int option"
  bb_outliner :: "outliner list option"
  bb_elements :: "Element list option"

text \<open>\<^verbatim>\<open>(v?.[i] || 0)\<close>: a missing vector or component counts as zero.\<close>

definition coord :: "int list option \<Rightarrow> nat \<Rightarrow> int" where
  "coord v i = (case v of None \<Rightarrow> 0 | Some xs \<Rightarrow> if i < length xs then xs ! i else 0)"

definition vecOr :: "int list option \<Rightarrow> int list \<Rightarrow> int list" where
  "vecOr v d = (case v of Some xs \<Rightarrow> xs | None \<Rightarrow> d)"

text \<open>The faces of an element with a UV rectangle, in Platform B's form.\<close>

definition convertFaces :: "(FaceData option) dict \<Rightarrow> cube_face dict" where
  "convertFaces faces =
     foldl (\<lambda>uv (faceName, faceData).
        (case faceData of
           Some fd \<Rightarrow>
             (case fd_uv fd of
                Some (x0, y0, x1, y1) \<Rightarrow>
                  assign faceName (Face [x0, y0] [x1 - x0, y1 - y0] (fd_texture fd)) uv
              | None \<Rightarrow> uv)
         | None \<Rightarrow> uv))
       [] faces"

definition convertCube :: "Element \<Rightarrow> Cube" where
  "convertCube element =
     \<lparr> cube_origin = vecOr (e_from element) [0, 0, 0],
       cube_size = [coord (e_to element) 0 - coord (e_from element) 0,
                    coord (e_to element) 1 - coord (e_from element) 1,
                    coord (e_to element) 2 - coord (e_from element) 2],
       cube_rotation = e_rotation element,
       cube_pivot = (case e_rotation element of
                       Some r \<Rightarrow> Some (vecOr (e_origin element) (vecOr (e_from element) [0, 0, 0]))
                     | None \<Rightarrow> None),
       cube_inflate = (case e_inflate element of
                         Some i \<Rightarrow> if i \<noteq> 0 then Some i else None
                       | None \<Rightarrow> None),
       cube_uv = (case e_faces element of Some faces \<Rightarrow> convertFaces faces | None \<Rightarrow> []) \<rparr>"

text \<open>The cube of one child: a child that is the identifier of an element gives that
  element's cube; any other child (a nested group among them) equals no element's
  identifier and gives nothing.\<close>

fun childCube :: "Element list \<Rightarrow> outliner \<Rightarrow> Cube list" where
  "childCube elements (Ref childUuid) =
     (case find (\<lambda>e. e_uuid e = childUuid) elements of
        Some element \<Rightarrow> [convertCube element]
      | None \<Rightarrow> [])"
| "childCube elements child = []"

text \<open>
  \<^verbatim>\<open>processBone(item, parentName)\<close>: the bone of one item of the node tree, with the
  cubes of its children. It does not call itself.
\<close>

definition processBone :: "env \<Rightarrow> Element list \<Rightarrow> outliner \<Rightarrow> string option \<Rightarrow> Bone option" where
  "processBone e elements item parentName =
     (case item of
        NullItem \<Rightarrow> None
      | Ref s \<Rightarrow>
          if s = [] then None
          else Some \<lparr> bone_name = ''bone_'' @ decimalNat (Date_now e), bone_pivot = [0, 0, 0],
                      bone_parent = (case parentName of
                                       Some p \<Rightarrow> if p \<noteq> [] then Some p else None
                                     | None \<Rightarrow> None),
                      bone_rotation = None, bone_cubes = [] \<rparr>
      | Node nm origin rotation children \<Rightarrow>
          Some \<lparr> bone_name = (case nm of
                                Some s \<Rightarrow> strOr s (''bone_'' @ decimalNat (Date_now e))
                              | None \<Rightarrow> ''bone_'' @ decimalNat (Date_now e)),
                 bone_pivot = vecOr origin [0, 0, 0],
                 bone_parent = (case parentName of
                                  Some p \<Rightarrow> if p \<noteq> [] then Some p else None
                                | None \<Rightarrow> None),
                 bone_rotation = rotation,
                 bone_cubes = (case children of
                                 Some cs \<Rightarrow> concat (map (childCube elements) cs)
                               | None \<Rightarrow> []) \<rparr>)"

text \<open>\<^verbatim>\<open>convertToBedrock\<close>: one call of \<^verbatim>\<open>processBone\<close> per item at the top of the node
  tree, without a parent name. (The fixed members of the description, the format
  version and the visible bounds, are left out.)\<close>

definition convertToBedrock :: "env \<Rightarrow> BBModel \<Rightarrow> string \<Rightarrow> Geometry" where
  "convertToBedrock e bbmodelData modelName =
     \<lparr> geo_identifier = ''geometry.'' @ modelName,
       geo_texture_width = numOr (bb_width bbmodelData) 16,
       geo_texture_height = numOr (bb_height bbmodelData) 16,
       geo_bones =
         (case bb_outliner bbmodelData of
            Some items \<Rightarrow>
              List.map_filter
                (\<lambda>item. processBone e (case bb_elements bbmodelData of Some es \<Rightarrow> es | None \<Rightarrow> [])
                           item None)
                items
          | None \<Rightarrow> []) \<rparr>"

text \<open>The nodes of a node tree, nested ones included, and a mesh with a group inside a
  group.\<close>

fun treeNodes :: "outliner \<Rightarrow> outliner list" where
  "treeNodes (Node nm origin rotation children) =
     Node nm origin rotation children #
     (case children of Some cs \<Rightarrow> concat (map treeNodes cs) | None \<Rightarrow> [])"
| "treeNodes item = []"

definition nestedMesh :: BBModel where
  "nestedMesh =
     \<lparr> bb_width = Some 32, bb_height = Some 32,
       bb_outliner = Some
         [Node (Some ''body'') (Some [0, 8, 0]) None
            (Some [Ref ''u1'',
                   Node (Some ''arm'') (Some [4, 12, 0]) None (Some [Ref ''u2''])])],
       bb_elements = Some
         [\<lparr> e_uuid = ''u1'', e_from = Some [0, 0, 0], e_to = Some [8, 8, 8], e_rotation = None,
            e_origin = None, e_inflate = None, e_faces = None \<rparr>,
          \<lparr> e_uuid = ''u2'', e_from = Some [8, 4, 0], e_to = Some [12, 6, 2], e_rotation = None,
            e_origin = None, e_inflate = None, e_faces = None \<rparr>] \<rparr>"

section \<open>Import of a Platform A package (\<^verbatim>\<open>importExistingPack\<close>)\<close>

subsection \<open>The texture-reference resolver\<close>

text \<open>\<^verbatim>\<open>.replace(/^item\//, '').replace(/^block\//, '').replace(/^entity\//, '')\<close>: the
  three replacements run one after the other.\<close>

definition stripTypeFolder :: "string \<Rightarrow> string" where
  "stripTypeFolder s = stripPrefix ''entity/'' (stripPrefix ''block/'' (stripPrefix ''item/'' s))"

text \<open>
  The index of the imported textures is an object written as \<^verbatim>\<open>{}\<close>, with one own
  property per texture, keyed by the texture's path. \<^verbatim>\<open>textureMap[k]\<close> in a condition is
  truthy when the index owns the key, and also when \<open>k\<close> names a member the index
  inherits.
\<close>

definition hasTexture :: "File dict \<Rightarrow> string \<Rightarrow> bool" where
  "hasTexture textureMap k = (map_of textureMap k \<noteq> None \<or> inheritedMember k)"

text \<open>
  What the resolver reports on the console for a layer: which branch linked the
  reference, or that none did.
\<close>

datatype resolved =
    LinkedExact
  | LinkedStripped
  | AutoMatched string
  | NotFound

record resolution_result =
  finalTextureName :: string
  textureFound :: bool
  report :: resolved

text \<open>The key strategy 3 looks for: one that ends in the reference's last path
  segment.\<close>

definition suffixCandidate :: "string \<Rightarrow> string \<Rightarrow> bool" where
  "suffixCandidate textureName key =
     (endsWith key (''/'' @ textureName) \<or> key = textureName \<or> key = ''item/'' @ textureName)"

text \<open>The resolution of one texture reference against the index of imported textures.\<close>

definition resolveTexture :: "File dict \<Rightarrow> string \<Rightarrow> resolution_result" where
  "resolveTexture textureMap texturePath =
     (let pathWithoutMinecraft = stripPrefix ''minecraft:'' texturePath in
      if hasTexture textureMap pathWithoutMinecraft then
        \<lparr> finalTextureName = stripTypeFolder pathWithoutMinecraft, textureFound = True,
          report = LinkedExact \<rparr>
      else
        let withoutPrefix = stripTypeFolder pathWithoutMinecraft in
        if hasTexture textureMap (''item/'' @ withoutPrefix) then
          \<lparr> finalTextureName = withoutPrefix, textureFound = True, report = LinkedStripped \<rparr>
        else if hasTexture textureMap withoutPrefix then
          \<lparr> finalTextureName = withoutPrefix, textureFound = True, report = LinkedStripped \<rparr>
        else
          let textureName = strOr (lastSegment withoutPrefix (CHR ''/'')) withoutPrefix in
          (case find (suffixCandidate textureName) (map fst textureMap) of
             Some matchingKey \<Rightarrow>
               if matchingKey \<noteq> [] then
                 \<lparr> finalTextureName = stripTypeFolder matchingKey, textureFound = True,
                   report = AutoMatched matchingKey \<rparr>
               else
                 \<lparr> finalTextureName = stripTypeFolder pathWithoutMinecraft, textureFound = False,
                   report = NotFound \<rparr>
           | None \<Rightarrow>
               \<lparr> finalTextureName = stripTypeFolder pathWithoutMinecraft, textureFound = False,
                 report = NotFound \<rparr>))"

text \<open>\<^verbatim>\<open>Object.entries\<close> of the \<^verbatim>\<open>textures\<close> member of a model document: the
  properties of an object, the indexed items of an array, nothing otherwise.\<close>

fun objectEntries :: "json \<Rightarrow> (string \<times> json) list" where
  "objectEntries (JObj kvs) = kvs"
| "objectEntries (JArr xs) = zip (map (\<lambda>i. decimalNat i) [0 ..< length xs]) xs"
| "objectEntries v = []"

text \<open>The loop over the layers: for every layer whose reference is a string, the name
  the resolver gives is assigned to the layer (\<^verbatim>\<open>newModel.textures[layer] = ...\<close>).\<close>

definition resolveLayer :: "File dict \<Rightarrow> string dict \<Rightarrow> string \<times> json \<Rightarrow> string dict" where
  "resolveLayer textureMap texs entry =
     (case entry of
        (layer, JStr texturePath) \<Rightarrow>
          assign layer (finalTextureName (resolveTexture textureMap texturePath)) texs
      | _ \<Rightarrow> texs)"

definition resolveLayers :: "File dict \<Rightarrow> json option \<Rightarrow> string dict" where
  "resolveLayers textureMap texs =
     (case texs of
        Some t \<Rightarrow> if truthy t then foldl (resolveLayer textureMap) [] (objectEntries t) else []
      | None \<Rightarrow> [])"

subsection \<open>Decoding the predicate\<close>

text \<open>The string hash of the import: \<^verbatim>\<open>((a << 5) - a + b.charCodeAt(0)) | 0\<close> over the
  code units, in 32-bit two's complement.\<close>

definition hashStep :: "32 word \<Rightarrow> char \<Rightarrow> 32 word" where
  "hashStep a b = push_bit 5 a - a + of_nat (of_char b)"

definition stringHash :: "string \<Rightarrow> 32 word" where
  "stringHash s = foldl hashStep 0 s"

text \<open>\<^verbatim>\<open>(Math.abs(hash) % 10000) + 1\<close>.\<close>

definition syntheticId :: "string \<Rightarrow> int" where
  "syntheticId dataStr = (\<bar>sint (stringHash dataStr)\<bar> mod 10000) + 1"

text \<open>
  The text of an array item under \<^verbatim>\<open>Array.prototype.join\<close>, and of a colour component
  under \<^verbatim>\<open>c.toString(16)\<close>. \<open>None\<close> is a \<^verbatim>\<open>TypeError\<close>: the component is \<^verbatim>\<open>null\<close>, or
  an object whose own \<^verbatim>\<open>toString\<close> member hides the inherited method.
\<close>

fun itemText :: "env \<Rightarrow> json \<Rightarrow> string option" where
  "itemText e JNull = Some []"
| "itemText e (JBool b) = Some (if b then ''true'' else ''false'')"
| "itemText e (JNum n) = Some (numberText e n)"
| "itemText e (JStr s) = Some s"
| "itemText e (JArr xs) = map_option (\<lambda>ts. join_str ts '','') (those (map (itemText e) xs))"
| "itemText e (JObj kvs) =
     (if map_of kvs ''toString'' \<noteq> None then None else Some ''[object Object]'')"

fun componentText :: "env \<Rightarrow> json \<Rightarrow> string option" where
  "componentText e JNull = None"
| "componentText e (JNum n) = Some (hexadecimal n)"
| "componentText e v = itemText e v"

text \<open>One entry of \<^verbatim>\<open>colors\<close>: an array of components becomes \<^verbatim>\<open>#\<close> and the components
  in hexadecimal, two digits at least each; anything but an array has no \<^verbatim>\<open>map\<close>.\<close>

fun colorText :: "env \<Rightarrow> json \<Rightarrow> json option" where
  "colorText e (JArr rgb) =
     map_option (\<lambda>cs. JStr (''#'' @ concat (map padStart2 cs))) (those (map (componentText e) rgb))"
| "colorText e v = None"






text \<open>
  The decoding of \<^verbatim>\<open>override.predicate.custom_model_data\<close> into the new model. \<open>None\<close>
  is an exception, which the task catches: the model is dropped.
\<close>

definition decodeExtended :: "env \<Rightarrow> json \<Rightarrow> ModelData \<Rightarrow> ModelData option" where
  "decodeExtended e cmd newModel =
     (let floats = getProp cmd ''floats'';
          flags = getProp cmd ''flags'';
          strings = getProp cmd ''strings'';
          colors = getProp cmd ''colors'';
          m1 = (if isArray floats then newModel\<lparr> m_customModelDataFloats := arrayItems floats \<rparr>
                else newModel);
          m2 = (if isArray flags then m1\<lparr> m_customModelDataFlags := arrayItems flags \<rparr> else m1);
          m3 = (if isArray strings then m2\<lparr> m_customModelDataStrings := arrayItems strings \<rparr> else m2);
          m4 = (if isArray colors
                then map_option (\<lambda>cs. m3\<lparr> m_customModelDataColors := cs \<rparr>)
                       (those (map (colorText e) (arrayItems colors)))
                else Some m3)
      in map_option (\<lambda>m. m\<lparr> m_customModelData := syntheticId (stringify e cmd) \<rparr>) m4)"

fun decodeCmd :: "env \<Rightarrow> json \<Rightarrow> ModelData \<Rightarrow> ModelData option" where
  "decodeCmd e (JNum n) newModel = Some (newModel\<lparr> m_customModelData := n \<rparr>)"
| "decodeCmd e (JObj kvs) newModel = decodeExtended e (JObj kvs) newModel"
| "decodeCmd e (JArr xs) newModel = decodeExtended e (JArr xs) newModel"
| "decodeCmd e JNull newModel = None"
| "decodeCmd e v newModel = Some newModel"

subsection \<open>The task of one model\<close>

text \<open>\<^verbatim>\<open>modelData.parent || "item/generated"\<close>: a truthy parent is kept, whatever it
  is.\<close>

definition parentOf :: "json \<Rightarrow> json" where
  "parentOf modelData =
     (case getProp modelData ''parent'' of
        Some p \<Rightarrow> if truthy p then p else JStr ''item/generated''
      | None \<Rightarrow> JStr ''item/generated'')"

definition orEmptyArray :: "json option \<Rightarrow> json" where
  "orEmptyArray v = (case v of Some j \<Rightarrow> if truthy j then j else JArr [] | None \<Rightarrow> JArr [])"

definition truthyOption :: "json option \<Rightarrow> json option" where
  "truthyOption v = (case v of Some j \<Rightarrow> if truthy j then Some j else None | None \<Rightarrow> None)"

text \<open>
  The asynchronous task the import queues for one override: parse the model document,
  build the model, resolve its texture layers, decode the predicate. \<open>None\<close> is the
  \<^verbatim>\<open>null\<close> of the \<^verbatim>\<open>catch\<close> branch: the document does not parse, is \<^verbatim>\<open>null\<close>, or the decoding
  throws. \<open>n\<close> is the number of identifiers drawn before.
\<close>

definition importModelTask ::
  "env \<Rightarrow> nat \<Rightarrow> File dict \<Rightarrow> string \<Rightarrow> string \<Rightarrow> json \<Rightarrow> string \<Rightarrow> ModelData option" where
  "importModelTask e n textureMap targetItem modelName cmd modelContent =
     (case JSON_parse e modelContent of
        None \<Rightarrow> None
      | Some modelData \<Rightarrow>
          if modelData = JNull then None
          else
            let newModel =
                  \<lparr> m_id = ''model_'' @ uuidv4 e n, m_name = modelName, m_customModelData = 1,
                    m_parent = parentOf modelData,
                    m_textures = resolveLayers textureMap (getProp modelData ''textures''),
                    m_targetItem = targetItem,
                    m_customModelDataFloats = [], m_customModelDataFlags = [],
                    m_customModelDataStrings = [], m_customModelDataColors = [],
                    m_elements = Some (orEmptyArray (getProp modelData ''elements'')),
                    m_display = None, m_bedrockGeometry = None \<rparr>
            in map_option (\<lambda>m. m\<lparr> m_display := truthyOption (getProp modelData ''display'') \<rparr>)
                 (decodeCmd e cmd newModel))"




section \<open>Merging packages (\<^verbatim>\<open>executeMerge\<close>)\<close>

text \<open>
  \<^verbatim>\<open>path.replace(/(\.[^.]+)$/, `_${pack.name}$1`)\<close>. The pattern matches a final
  extension: the last dot of the path with at least one character behind it. The
  replacement is a template: in it \<^verbatim>\<open>$$\<close> stands for a dollar sign, \<^verbatim>\<open>$&\<close>, \<^verbatim>\<open>$1\<close> and
  \<^verbatim>\<open>$01\<close> for the matched extension, \<^verbatim>\<open>$`\<close> for the text before the match and \<^verbatim>\<open>$'\<close> for
  the text behind it (empty here); any other dollar sign stands for itself.
\<close>

definition splitFinalExtension :: "string \<Rightarrow> (string \<times> string) option" where
  "splitFinalExtension path =
     (let ext = lastSegment path (CHR ''.'') in
      if CHR ''.'' \<in> set path \<and> ext \<noteq> []
      then Some (take (length path - length ext - 1) path, CHR ''.'' # ext)
      else None)"

fun expandReplacement :: "string \<Rightarrow> string \<Rightarrow> string \<Rightarrow> string" where
  "expandReplacement [] before matched = []"
| "expandReplacement [c] before matched = [c]"
| "expandReplacement (c # d # cs) before matched =
     (if c \<noteq> CHR ''$'' then c # expandReplacement (d # cs) before matched
      else if d = CHR ''$'' then CHR ''$'' # expandReplacement cs before matched
      else if d = CHR ''&'' then matched @ expandReplacement cs before matched
      else if d = CHR 0x60 then before @ expandReplacement cs before matched
      else if d = CHR 0x27 then expandReplacement cs before matched
      else if d = CHR ''1'' then matched @ expandReplacement cs before matched
      else (case cs of
              [] \<Rightarrow> c # expandReplacement (d # cs) before matched
            | x # rest \<Rightarrow>
                if d = CHR ''0'' \<and> x = CHR ''1'' then matched @ expandReplacement rest before matched
                else c # expandReplacement (d # cs) before matched))"

definition renamePath :: "string \<Rightarrow> string \<Rightarrow> string" where
  "renamePath path packName =
     (case splitFinalExtension path of
        Some (before, ext) \<Rightarrow> before @ expandReplacement (''_'' @ packName @ ''$1'') before ext
      | None \<Rightarrow> path)"

text \<open>\<^verbatim>\<open>new File([blob], path.split("/").pop() || "texture.png")\<close>.\<close>

definition entryFile :: "string \<Rightarrow> string \<Rightarrow> File" where
  "entryFile path data =
     \<lparr> file_name = strOr (lastSegment path (CHR ''/'')) ''texture.png'', file_data = data \<rparr>"

definition conflictOf :: "MergeConflict list \<Rightarrow> string \<Rightarrow> MergeConflict option" where
  "conflictOf conflicts path = find (\<lambda>c. mc_path c = path) conflicts"

text \<open>The texture branch of the loop over the entries of a package.\<close>

definition mergeTextureEntry ::
  "MergeConflict list \<Rightarrow> string \<Rightarrow> File dict \<Rightarrow> ZipEntry \<Rightarrow> File dict" where
  "mergeTextureEntry conflicts packName mergedTextures zipEntry =
     (let path = ze_path zipEntry in
      case conflictOf conflicts path of
        Some conflict \<Rightarrow>
          if mc_resolution conflict = Skip \<and> map_of mergedTextures path \<noteq> None
          then mergedTextures
          else if mc_resolution conflict = Rename
          then (let newPath = renamePath path packName in
                AList.update newPath (entryFile newPath (ze_data zipEntry)) mergedTextures)
          else AList.update path (entryFile path (ze_data zipEntry)) mergedTextures
      | None \<Rightarrow> AList.update path (entryFile path (ze_data zipEntry)) mergedTextures)"

text \<open>The model branch: a document that parses is stored under its path.\<close>

definition mergeModelEntry :: "env \<Rightarrow> json dict \<Rightarrow> ZipEntry \<Rightarrow> json dict" where
  "mergeModelEntry e mergedModels zipEntry =
     (case JSON_parse e (ze_data zipEntry) of
        Some modelData \<Rightarrow> AList.update (ze_path zipEntry) modelData mergedModels
      | None \<Rightarrow> mergedModels)"

definition mergeEntry ::
  "env \<Rightarrow> MergeConflict list \<Rightarrow> string \<Rightarrow> File dict \<times> json dict \<Rightarrow> ZipEntry
     \<Rightarrow> File dict \<times> json dict" where
  "mergeEntry e conflicts packName acc zipEntry =
     (case acc of (mergedTextures, mergedModels) \<Rightarrow>
        if ze_dir zipEntry then (mergedTextures, mergedModels)
        else if includes_str (ze_path zipEntry) ''textures/''
        then (mergeTextureEntry conflicts packName mergedTextures zipEntry, mergedModels)
        else if includes_str (ze_path zipEntry) ''models/''
        then (mergedTextures, mergeModelEntry e mergedModels zipEntry)
        else (mergedTextures, mergedModels))"

text \<open>The loop over the packages, in order. \<open>None\<close>: an archive cannot be loaded, the
  exception leaves the loop and nothing is merged.\<close>

fun scanPacks ::
  "env \<Rightarrow> MergeConflict list \<Rightarrow> MergePack list \<Rightarrow> File dict \<times> json dict
     \<Rightarrow> (File dict \<times> json dict) option" where
  "scanPacks e conflicts [] acc = Some acc"
| "scanPacks e conflicts (pack # packs) acc =
     (case mp_file pack of
        Unreadable \<Rightarrow> None
      | Archive entries \<Rightarrow>
          scanPacks e conflicts packs (foldl (mergeEntry e conflicts (mp_name pack)) acc entries))"

text \<open>
  \<^verbatim>\<open>addTexture(file)\<close> with the default category: probe the image, then append a new
  texture to the asset model. \<open>None\<close>: the probe never answers, and the call never
  returns.
\<close>

definition newTextureData :: "env \<Rightarrow> nat \<Rightarrow> File \<Rightarrow> nat \<times> nat \<Rightarrow> TextureData" where
  "newTextureData e n file dimensions =
     (let fileName = stripExtension (file_name file) in
      \<lparr> t_id = ''texture_'' @ uuidv4 e n, t_name = fileName, t_file = file,
        t_path = ''textures/item/'' @ fileName @ ''.png'',
        t_size = length (file_data file), t_dimensions = dimensions,
        t_isOptimized = False,
        t_width = Some (fst dimensions), t_height = Some (snd dimensions), t_enabled = Some True,
        t_animation = Some \<lparr> an_enabled = False, an_frametime = Some 1,
                              an_interpolate = Some False, an_frames = Some [] \<rparr> \<rparr>)"

definition addTexture :: "env \<Rightarrow> app \<Rightarrow> File \<Rightarrow> app option" where
  "addTexture e st file =
     (case imageSize e file of
        None \<Rightarrow> None
      | Some dimensions \<Rightarrow>
          Some (st\<lparr> uuidsDrawn := uuidsDrawn st + 1,
                   resourcePack := (resourcePack st)
                     \<lparr> textures := textures (resourcePack st) @
                          [newTextureData e (uuidsDrawn st) file dimensions] \<rparr> \<rparr>))"

text \<open>The loop that adds the merged textures, one after the other. The flag tells
  whether the loop came to its end.\<close>

fun addTextures :: "env \<Rightarrow> app \<Rightarrow> File list \<Rightarrow> app \<times> bool" where
  "addTextures e st [] = (st, True)"
| "addTextures e st (file # files) =
     (case addTexture e st file of
        None \<Rightarrow> (st, False)
      | Some st' \<Rightarrow> addTextures e st' files)"

text \<open>
  \<^verbatim>\<open>executeMerge\<close>. When an archive cannot be loaded the merge fails and the asset model
  stays as it is. Otherwise the merged textures are added; the merged model documents
  are not used. A merge that never ends (a probe does not answer) leaves the
  processing flag set, with the textures added so far.
\<close>

definition executeMerge :: "env \<Rightarrow> app \<Rightarrow> app" where
  "executeMerge e st =
     (case scanPacks e (mergeConflicts st) (mergePacks st) ([], []) of
        None \<Rightarrow> st\<lparr> isProcessing := False, alerts := alerts st @ [MergeFailed] \<rparr>
      | Some (mergedTextures, mergedModels) \<Rightarrow>
          (case addTextures e (st\<lparr> isProcessing := True \<rparr>) (map snd mergedTextures) of
             (st', finished) \<Rightarrow>
               if finished
               then st'\<lparr> isProcessing := False, mergePacks := [], mergeConflicts := [],
                         alerts := alerts st' @
                           [MergeDone (length (mergePacks st)) (length mergedTextures)] \<rparr>
               else st'))"

subsection \<open>The scan as one sequence\<close>

text \<open>The entries of all packages in the order of the scan, each with the name of its
  package; the key of the merged map an entry is written to (if it is a texture entry);
  and the contributors of a path.\<close>

definition packEntries :: "MergePack \<Rightarrow> (string \<times> ZipEntry) list" where
  "packEntries pack =
     (case mp_file pack of
        Unreadable \<Rightarrow> []
      | Archive entries \<Rightarrow> map (\<lambda>en. (mp_name pack, en)) entries)"

definition scanOrder :: "MergePack list \<Rightarrow> (string \<times> ZipEntry) list" where
  "scanOrder packs = concat (map packEntries packs)"

definition isTextureEntry :: "ZipEntry \<Rightarrow> bool" where
  "isTextureEntry en = (\<not> ze_dir en \<and> includes_str (ze_path en) ''textures/'')"

definition writeTarget :: "MergeConflict list \<Rightarrow> string \<times> ZipEntry \<Rightarrow> string option" where
  "writeTarget conflicts x =
     (case x of (packName, en) \<Rightarrow>
        if \<not> isTextureEntry en then None
        else (case conflictOf conflicts (ze_path en) of
                Some conflict \<Rightarrow>
                  if mc_resolution conflict = Rename then Some (renamePath (ze_path en) packName)
                  else Some (ze_path en)
              | None \<Rightarrow> Some (ze_path en)))"

definition contributors :: "MergePack list \<Rightarrow> string \<Rightarrow> (string \<times> ZipEntry) list" where
  "contributors packs path =
     filter (\<lambda>(packName, en). isTextureEntry en \<and> ze_path en = path) (scanOrder packs)"

text \<open>The step of the scan on the merged textures alone.\<close>

definition textureStep :: "MergeConflict list \<Rightarrow> File dict \<Rightarrow> string \<times> ZipEntry \<Rightarrow> File dict" where
  "textureStep conflicts mergedTextures x =
     (case x of (packName, en) \<Rightarrow>
        if isTextureEntry en then mergeTextureEntry conflicts packName mergedTextures en
        else mergedTextures)"

text \<open>
  Conditions on a scanned entry \<open>x\<close>. It contributes to \<open>path\<close>: it is a texture entry of
  that path. It is renamed to \<open>path\<close>: it is an entry of another path whose key is \<open>path\<close>
  (only a renamed entry can be). It overwrites the key \<open>k\<close>: its key is \<open>k\<close> and its path
  is not in skip mode, so that it is written whatever the merged map holds (an entry in
  skip mode is written only while its path is free).
\<close>

definition contributes :: "string \<Rightarrow> string \<times> ZipEntry \<Rightarrow> bool" where
  "contributes path x = (isTextureEntry (snd x) \<and> ze_path (snd x) = path)"

definition renamedTo :: "MergeConflict list \<Rightarrow> string \<Rightarrow> string \<times> ZipEntry \<Rightarrow> bool" where
  "renamedTo conflicts path x = (writeTarget conflicts x = Some path \<and> ze_path (snd x) \<noteq> path)"

definition skipMode :: "MergeConflict list \<Rightarrow> string \<Rightarrow> bool" where
  "skipMode conflicts path =
     (case conflictOf conflicts path of
        Some conflict \<Rightarrow> mc_resolution conflict = Skip
      | None \<Rightarrow> False)"

definition overwrites :: "MergeConflict list \<Rightarrow> string \<Rightarrow> string \<times> ZipEntry \<Rightarrow> bool" where
  "overwrites conflicts k x = (writeTarget conflicts x = Some k \<and> \<not> skipMode conflicts (ze_path (snd x)))"

section \<open>Sample inputs\<close>

text \<open>A model as \<^verbatim>\<open>addModel\<close> creates it, with the given name, target item, identifier
  and texture layers; and a pack around a list of models and fonts.\<close>

definition newModel :: "string \<Rightarrow> string \<Rightarrow> int \<Rightarrow> string dict \<Rightarrow> ModelData" where
  "newModel nm item cmd texs =
     \<lparr> m_id = ''model_'' @ nm, m_name = nm, m_customModelData = cmd,
       m_parent = JStr ''item/generated'',
       m_textures = texs, m_targetItem = item,
       m_customModelDataFloats = [], m_customModelDataFlags = [],
       m_customModelDataStrings = [], m_customModelDataColors = [],
       m_elements = None, m_display = None, m_bedrockGeometry = None \<rparr>"

definition newPack :: "int \<Rightarrow> ModelData list \<Rightarrow> CustomFont list \<Rightarrow> ResourcePack" where
  "newPack fmt ms fs =
     \<lparr> name = ''Gems'', description = ''A pack'', version = ''1.21.6'', format = fmt,
       models = ms, textures = [], fonts = fs, sounds = [], languages = [], particles = [],
       shaders = [], packIcon = None, author = [], website = [], license = ''All Rights Reserved'' \<rparr>"

definition zeroModel :: ModelData where
  "zeroModel = newModel ''base_stick'' ''stick'' 0 [(''layer0'', ''stick_tex'')]"

definition gemModel :: ModelData where
  "gemModel = newModel ''gem'' ''stick'' 5 [(''layer0'', ''gem'')]"





definition gemLayers :: "(string \<times> json) list" where
  "gemLayers = [(''layer0'', JStr ''minecraft:item/gem''), (''layer1'', JStr ''block/missing'')]"

text \<open>A model document with these layers and its text; an override that selects the
  model by a predicate; and an archive that holds the document.\<close>

definition gemDocument :: json where
  "gemDocument = JObj [(''parent'', JStr ''item/handheld''), (''textures'', JObj gemLayers)]"

definition gemDocumentText :: string where
  "gemDocumentText =
     ''{'' @ quote ''parent'' @ '':'' @ quote ''item/handheld'' @ '','' @
     quote ''textures'' @ '':{'' @ quote ''layer0'' @ '':'' @ quote ''minecraft:item/gem'' @ '','' @
     quote ''layer1'' @ '':'' @ quote ''block/missing'' @ ''}}''"

text \<open>A model document with a layer named \<^verbatim>\<open>__proto__\<close>, and its text.\<close>

definition protoDocument :: json where
  "protoDocument = JObj [(''textures'', JObj [(''__proto__'', JStr ''block/missing'')])]"

definition protoDocumentText :: string where
  "protoDocumentText =
     ''{'' @ quote ''textures'' @ '':{'' @ quote ''__proto__'' @ '':'' @ quote ''block/missing'' @ ''}}''"



definition badFont :: CustomFont where
  "badFont =
     \<lparr> f_id = ''font_1'', f_name = ''icons'',
       f_providers =
         [\<lparr> p_id = ''provider_1'', p_type = ''bitmap'', p_file = Some ''minecraft:font/icons.png'',
            p_fileHandle = None, p_ascent = Some 10, p_height = Some 8, p_chars = Some [''A''],
            p_advances = None, p_size = None, p_oversample = None, p_shift = None,
            p_skip = None \<rparr>],
       f_file = None \<rparr>"

text \<open>
  A platform's printer of the numbers beyond the safe integers: all digits below
  \<^verbatim>\<open>10^21\<close> in magnitude, and from there on the digits without their final zeros,
  with an exponent. The language prints so the numbers whose shortest identifying
  digits are those of their full expansion, such as \<^verbatim>\<open>1e+21\<close>.
\<close>

definition exponential :: "int \<Rightarrow> string" where
  "exponential n =
     (let digits = decimalNat (nat \<bar>n\<bar>);
          significant = rev (dropWhile (\<lambda>c. c = CHR ''0'') (rev digits))
      in if \<bar>n\<bar> < 10 ^ 21 then decimal n
         else (if n < 0 then ''-'' else []) @ take 1 significant @
              (if length significant > 1 then ''.'' @ drop 1 significant else []) @
              ''e+'' @ decimalNat (length digits - 1))"

text \<open>An environment, two packages that hold the same texture path, a conflict on it,
  and a state about to merge them.\<close>

definition plainEnv :: env where
  "plainEnv = \<lparr> uuidv4 = decimalNat, imageSize = (\<lambda>f. Some (16, 16)),
                JSON_parse = (\<lambda>s. if s = ''{}'' then Some (JObj [])
                                   else if s = gemDocumentText then Some gemDocument
                                   else if s = protoDocumentText then Some protoDocument
                                   else None),
                Date_now = 0, Number_toString = exponential \<rparr>"

text \<open>The same environment with an image that never loads: the file named
  \<^verbatim>\<open>gem_B.png\<close>.\<close>

definition stallEnv :: env where
  "stallEnv = plainEnv\<lparr> imageSize := (\<lambda>f. if file_name f = ''gem_B.png'' then None else Some (16, 16)) \<rparr>"

definition gemPack :: "string \<Rightarrow> string \<Rightarrow> string \<Rightarrow> MergePack" where
  "gemPack nm path data =
     \<lparr> mp_name = nm,
       mp_file = Archive [\<lparr> ze_path = ''assets/minecraft/textures/'', ze_dir = True, ze_data = [] \<rparr>,
                          \<lparr> ze_path = path, ze_dir = False, ze_data = data \<rparr>] \<rparr>"

definition gemConflict :: "string \<Rightarrow> resolution \<Rightarrow> MergeConflict" where
  "gemConflict path r = \<lparr> mc_path = path, mc_packs = [], mc_resolution = r \<rparr>"

text \<open>Two packages whose renamed paths meet other conflicting paths.\<close>

definition texEntry :: "string \<Rightarrow> string \<Rightarrow> ZipEntry" where
  "texEntry path data = \<lparr> ze_path = path, ze_dir = False, ze_data = data \<rparr>"

definition clashPackA :: MergePack where
  "clashPackA =
     \<lparr> mp_name = ''A'',
       mp_file = Archive [texEntry ''textures/gem'' ''g1'', texEntry ''textures/a.png'' ''a1'',
                          texEntry ''textures/a_A.png'' ''s1'', texEntry ''textures/a_B.png'' ''o1''] \<rparr>"

definition clashPackB :: MergePack where
  "clashPackB =
     \<lparr> mp_name = ''B'',
       mp_file = Archive [texEntry ''textures/gem'' ''g2'', texEntry ''textures/a_B.png'' ''o2'',
                          texEntry ''textures/a_A.png'' ''s2'', texEntry ''textures/a.png'' ''b1''] \<rparr>"

text \<open>Two packages whose names hold a dollar sign, and a package that cannot be loaded.\<close>

definition dollarPackA :: MergePack where
  "dollarPackA = \<lparr> mp_name = ''$1'', mp_file = Archive [texEntry ''textures/a.png'' ''a1''] \<rparr>"

definition dollarPackB :: MergePack where
  "dollarPackB = \<lparr> mp_name = ''$&'', mp_file = Archive [texEntry ''textures/a.png'' ''b1''] \<rparr>"

definition brokenPack :: MergePack where
  "brokenPack = \<lparr> mp_name = ''C'', mp_file = Unreadable \<rparr>"

definition clashConflicts :: "MergeConflict list" where
  "clashConflicts =
     [gemConflict ''textures/gem'' Rename, gemConflict ''textures/a.png'' Rename,
      gemConflict ''textures/a_B.png'' Overwrite, gemConflict ''textures/a_A.png'' Skip]"

definition mergeState :: app where
  "mergeState =
     \<lparr> resourcePack = newPack 63 [gemModel] [], packEdition = Java, isProcessing = False,
       mergePacks = [gemPack ''A'' ''textures/item/gem.png'' ''a'',
                     \<lparr> mp_name = ''B'',
                       mp_file = Archive
                         [\<lparr> ze_path = ''textures/item/gem.png'', ze_dir = False, ze_data = ''b'' \<rparr>,
                          \<lparr> ze_path = ''assets/minecraft/models/item/gem.json'', ze_dir = False,
                            ze_data = ''{}'' \<rparr>] \<rparr>],
       mergeConflicts = [gemConflict ''textures/item/gem.png'' Rename],
       validationResults = None, alerts = [], downloads = [], uuidsDrawn = 0 \<rparr>"

section \<open>Properties of objects\<close>

lemma insertIndexed_keys: "fst ` set (insertIndexed n kv obj) = insert (fst kv) (fst ` set obj)"
  by (induction obj) (auto split: option.splits)

lemma map_of_insertIndexed:
  "fst kv \<notin> fst ` set obj \<Longrightarrow> map_of (insertIndexed n kv obj) = (map_of obj)(fst kv \<mapsto> snd kv)"
proof (induction obj)
  case Nil then show ?case by (cases kv) auto
next
  case (Cons x obj)
  then show ?case
    by (cases kv; cases x) (auto split: option.splits simp: fun_upd_twist)
qed

lemma distinct_insertIndexed:
  "fst kv \<notin> fst ` set obj \<Longrightarrow> distinct (map fst obj) \<Longrightarrow> distinct (map fst (insertIndexed n kv obj))"
  by (induction obj) (auto split: option.splits simp: insertIndexed_keys)

lemma map_of_snoc: "m k = None \<Longrightarrow> [k \<mapsto> v] ++ m = m(k \<mapsto> v)"
  by (auto simp: map_add_def fun_eq_iff split: option.splits)

lemma map_of_assign:
  "k \<noteq> ''__proto__'' \<Longrightarrow> map_of (assign k v obj) = (map_of obj)(k \<mapsto> v)"
proof (cases "map_of obj k")
  case None
  then have "k \<notin> fst ` set obj" by (simp add: map_of_eq_None_iff)
  then show ?thesis if "k \<noteq> ''__proto__''"
    using that None by (cases "arrayIndex k") (simp_all add: assign_def map_of_insertIndexed map_of_snoc)
next
  case (Some y)
  then show ?thesis if "k \<noteq> ''__proto__''"
    using that by (simp add: assign_def AList.update_conv')
qed

lemma assign_proto: "assign ''__proto__'' v obj = obj"
  by (simp add: assign_def)

lemma distinct_assign: "distinct (map fst obj) \<Longrightarrow> distinct (map fst (assign k v obj))"
  by (auto simp: assign_def AList.distinct_update distinct_insertIndexed map_of_eq_None_iff
           split: option.splits)

lemma assign_keys:
  "k \<noteq> ''__proto__'' \<Longrightarrow> fst ` set (assign k v obj) = insert k (fst ` set obj)"
  by (cases "map_of obj k"; cases "arrayIndex k")
     (simp_all add: assign_def insertIndexed_keys AList.dom_update)

lemma insertIndexed_append:
  "\<forall>x\<in>set obj. \<exists>n'. arrayIndex (fst x) = Some n' \<and> n' < n \<Longrightarrow> insertIndexed n kv obj = obj @ [kv]"
  by (induction obj) auto

section \<open>Properties of the language converters\<close>

lemma trim_id: "\<not> untrimmed s \<Longrightarrow> trim s = s"
proof (cases "s = []")
  case True then show ?thesis by (simp add: trim_def)
next
  case False
  assume "\<not> untrimmed s"
  with False have h: "\<not> js_whitespace (hd s)" and l: "\<not> js_whitespace (last s)"
    by (auto simp: untrimmed_def)
  from False h have 1: "dropWhile js_whitespace s = s" by (cases s) auto
  from False l have 2: "dropWhile js_whitespace (rev s) = rev s"
    by (cases "rev s") (auto simp: hd_rev [symmetric])
  show ?thesis by (simp add: trim_def 1 2)
qed

lemma split_str_no_sep: "c \<notin> set l \<Longrightarrow> split_str l c = [l]"
  by (induction l) auto

lemma split_str_append: "c \<notin> set l \<Longrightarrow> split_str (l @ c # rest) c = l # split_str rest c"
  by (induction l) auto

lemma split_join:
  "lines \<noteq> [] \<Longrightarrow> \<forall>l\<in>set lines. c \<notin> set l \<Longrightarrow> split_str (join_str lines [c]) c = lines"
proof (induction lines "[c]" rule: join_str.induct)
  case 1 then show ?case by simp
next
  case (2 x) then show ?case by (simp add: split_str_no_sep)
next
  case (3 x y ys)
  then show ?case by (simp add: split_str_append)
qed

lemma takeWhile_sep: "c \<notin> set k \<Longrightarrow> takeWhile (\<lambda>x. x \<noteq> c) (k @ c # v) = k"
  by (induction k) auto

lemma not_ws_eq: "\<not> js_whitespace (CHR ''='')"
  by (simp add: js_whitespace_def)

lemma langLine_entry:
  assumes k: "lang_key_ok k" and v: "lang_value_ok v"
  shows "langLine content (k @ ''='' @ v) = assign k v content"
proof -
  let ?line = "k @ CHR ''='' # v"
  from k have kne: "k \<noteq> []" and keq: "CHR ''='' \<notin> set k" and kt: "\<not> untrimmed k"
    and kh: "\<not> startsWith k ''#''" and ks: "\<not> startsWith k ''//''"
    by (auto simp: lang_key_ok_def)
  from v have vt: "\<not> untrimmed v" by (simp add: lang_value_ok_def)
  have "\<not> untrimmed ?line"
    using kne kt vt not_ws_eq by (cases k; cases "v = []") (auto simp: untrimmed_def)
  then have t: "trim ?line = ?line" by (rule trim_id)
  have ne: "?line \<noteq> []" using kne by simp
  have sh: "\<not> startsWith ?line ''#''" using kh kne by (cases k) (auto simp: startsWith_def)
  have ss: "\<not> startsWith ?line ''//''" using ks kne keq
    by (cases k; cases "tl k") (auto simp: startsWith_def)
  have tw: "takeWhile (\<lambda>x. x \<noteq> CHR ''='') ?line = k"
    using keq by (simp add: takeWhile_sep)
  have ix: "indexOf ?line (CHR ''='') = int (length k)"
    by (simp add: indexOf_def tw)
  have pos: "indexOf ?line (CHR ''='') > 0" using kne by (simp add: ix)
  have a: "substring ?line 0 (int (length k)) = k" by (simp add: substring_def)
  have b: "substring_from ?line (int (length k) + 1) = v"
    by (simp add: substring_from_def nat_add_distrib)
  have "langLine content ?line = assign k v content"
    unfolding langLine_def Let_def t
    using ne sh ss pos kt vt by (simp only: ix a b trim_id if_False if_True simp_thms)
  then show ?thesis by simp
qed

lemma langLine_distinct: "distinct (map fst content) \<Longrightarrow> distinct (map fst (langLine content line))"
  by (simp add: langLine_def Let_def distinct_assign)

lemma foldl_langLine_distinct:
  "distinct (map fst content) \<Longrightarrow> distinct (map fst (foldl langLine content lines))"
  by (induction lines arbitrary: content) (simp_all add: langLine_distinct)

lemma foldl_langLine_map_of:
  "distinct (map fst m) \<Longrightarrow> \<forall>(k, v)\<in>set m. lang_key_ok k \<and> lang_value_ok v \<Longrightarrow>
   ''__proto__'' \<notin> fst ` set m \<Longrightarrow>
   map_of (foldl langLine acc (map (\<lambda>(key, val). key @ ''='' @ val) m)) = map_of acc ++ map_of m"
proof (induction m arbitrary: acc)
  case Nil then show ?case by simp
next
  case (Cons kv m)
  obtain k v where kv: "kv = (k, v)" by (cases kv)
  from Cons.prems kv have ok: "lang_key_ok k" "lang_value_ok v" by auto
  from Cons.prems kv have np: "k \<noteq> ''__proto__''" by auto
  from Cons.prems kv have fresh: "map_of m k = None" by (auto simp: map_of_eq_None_iff)
  have step: "langLine acc (k @ ''='' @ v) = assign k v acc" by (rule langLine_entry [OF ok])
  have "map_of (foldl langLine (assign k v acc) (map (\<lambda>(key, val). key @ ''='' @ val) m)) =
        map_of (assign k v acc) ++ map_of m"
    using Cons.prems by (intro Cons.IH) auto
  also have "\<dots> = (map_of acc)(k \<mapsto> v) ++ map_of m" by (simp add: map_of_assign [OF np])
  also have "\<dots> = map_of acc ++ map_of ((k, v) # m)"
    using fresh by (auto simp: map_add_def fun_eq_iff split: option.splits)
  finally have e: "map_of (foldl langLine (assign k v acc) (map (\<lambda>(key, val). key @ ''='' @ val) m)) =
        map_of acc ++ map_of ((k, v) # m)" .
  have "foldl langLine acc (map (\<lambda>(key, val). key @ ''='' @ val) (kv # m)) =
        foldl langLine (assign k v acc) (map (\<lambda>(key, val). key @ ''='' @ val) m)"
    using step kv by simp
  then show ?case using e kv by (simp only:)
qed

lemma enumerationOrder_before:
  assumes "enumerationOrder (ks @ k # rest)" and "arrayIndex k = Some n"
  shows "\<forall>k'\<in>set ks. \<exists>n'. arrayIndex k' = Some n' \<and> n' < n"
proof -
  define P where "P = (\<lambda>k. arrayIndex k \<noteq> None)"
  have srt: "sorted_wrt (<) (map (the \<circ> arrayIndex) (takeWhile P (ks @ k # rest)))"
    using assms(1) unfolding enumerationOrder_def P_def by (rule conjunct1)
  have "list_all (\<lambda>k. arrayIndex k = None) (dropWhile P (ks @ k # rest))"
    using assms(1) unfolding enumerationOrder_def P_def by (rule conjunct2)
  then have rst: "\<forall>x\<in>set (dropWhile P (ks @ k # rest)). arrayIndex x = None"
    unfolding list_all_iff .
  have Pk: "P k" using assms(2) by (simp add: P_def)
  have all: "\<forall>k'\<in>set ks. P k'"
  proof (rule ccontr)
    assume "\<not> (\<forall>k'\<in>set ks. P k')"
    then obtain x where x: "x \<in> set ks" "\<not> P x" by blast
    then have "dropWhile P (ks @ k # rest) = dropWhile P ks @ k # rest"
      by (rule dropWhile_append1)
    then have "k \<in> set (dropWhile P (ks @ k # rest))" by simp
    with rst have "arrayIndex k = None" by (rule bspec)
    with assms(2) show False by simp
  qed
  then have "takeWhile P (ks @ k # rest) = ks @ takeWhile P (k # rest)"
    by (simp add: takeWhile_append2)
  with Pk have "takeWhile P (ks @ k # rest) = ks @ k # takeWhile P rest" by simp
  with srt have "sorted_wrt (<) (map (the \<circ> arrayIndex) ks @ the (arrayIndex k) # map (the \<circ> arrayIndex) (takeWhile P rest))"
    by simp
  then have "\<forall>x\<in>set (map (the \<circ> arrayIndex) ks). x < the (arrayIndex k)"
    unfolding sorted_wrt_append by simp
  then have lt: "\<forall>k'\<in>set ks. the (arrayIndex k') < n" using assms(2) by simp
  show ?thesis
  proof
    fix k' assume m: "k' \<in> set ks"
    with all have "P k'" by blast
    then obtain n' where "arrayIndex k' = Some n'" by (auto simp: P_def)
    with lt m show "\<exists>n'. arrayIndex k' = Some n' \<and> n' < n" by auto
  qed
qed

lemma assign_append:
  assumes "k \<notin> fst ` set acc" and "k \<noteq> ''__proto__''"
    and "enumerationOrder (map fst acc @ k # rest)"
  shows "assign k v acc = acc @ [(k, v)]"
proof (cases "arrayIndex k")
  case None
  with assms(1,2) show ?thesis by (simp add: assign_def map_of_eq_None_iff)
next
  case (Some n)
  from enumerationOrder_before [OF assms(3) Some]
  have "\<forall>x\<in>set acc. \<exists>n'. arrayIndex (fst x) = Some n' \<and> n' < n" by auto
  then have "insertIndexed n (k, v) acc = acc @ [(k, v)]" by (rule insertIndexed_append)
  with assms(1,2) Some show ?thesis by (simp add: assign_def map_of_eq_None_iff)
qed

lemma foldl_langLine:
  "distinct (map fst (acc @ m)) \<Longrightarrow> \<forall>(k, v)\<in>set m. lang_key_ok k \<and> lang_value_ok v \<Longrightarrow>
   ''__proto__'' \<notin> fst ` set m \<Longrightarrow> enumerationOrder (map fst (acc @ m)) \<Longrightarrow>
   foldl langLine acc (map (\<lambda>(key, val). key @ ''='' @ val) m) = acc @ m"
proof (induction m arbitrary: acc)
  case Nil then show ?case by simp
next
  case (Cons kv m)
  obtain k v where kv: "kv = (k, v)" by (cases kv)
  from Cons.prems kv have ok: "lang_key_ok k" "lang_value_ok v" by auto
  from Cons.prems kv have fresh: "k \<notin> fst ` set acc" and np: "k \<noteq> ''__proto__''" by auto
  from Cons.prems(4) kv have eo: "enumerationOrder (map fst acc @ k # map fst m)" by simp
  have step: "langLine acc (k @ ''='' @ v) = acc @ [(k, v)]"
    using langLine_entry [OF ok] assign_append [OF fresh np eo] by simp
  have "foldl langLine (acc @ [(k, v)]) (map (\<lambda>(key, val). key @ ''='' @ val) m) = (acc @ [(k, v)]) @ m"
    using Cons.prems kv by (intro Cons.IH) auto
  then show ?case using step kv by simp
qed

text \<open>
  Claim C10, as amended (language round trip). A language table is a dictionary, so its
  keys are distinct. When every key is non-empty, has no \<^verbatim>\<open>=\<close> and no line feed, does
  not begin with \<^verbatim>\<open>#\<close> or \<^verbatim>\<open>//\<close> and has no leading or trailing whitespace, every value
  has no line feed and no leading or trailing whitespace, and no key is \<^verbatim>\<open>__proto__\<close>,
  decoding the Bedrock \<^verbatim>\<open>.lang\<close> text that \<^const>\<open>convertLangToBedrock\<close> writes gives back
  the table: a dictionary with the same keys and the same values, and, for a table
  whose keys stand in an order of enumeration (as those of every object do), the same
  list of entries.
\<close>

theorem lang_roundtrip:
  assumes "distinct (map fst m)"
    and "\<forall>(k, v)\<in>set m. lang_key_ok k \<and> lang_value_ok v"
    and "''__proto__'' \<notin> fst ` set m"
  shows "map_of (lf_content (convertBedrockLangToInternal (convertLangToBedrock m) code nm)) = map_of m \<and>
         distinct (map fst (lf_content (convertBedrockLangToInternal (convertLangToBedrock m) code nm))) \<and>
         (enumerationOrder (map fst m) \<longrightarrow>
            lf_content (convertBedrockLangToInternal (convertLangToBedrock m) code nm) = m)"
proof (cases "m = []")
  case True
  then show ?thesis
    by (simp add: convertBedrockLangToInternal_def convertLangToBedrock_def langLine_def trim_def)
next
  case False
  let ?lines = "map (\<lambda>(key, val). key @ ''='' @ val) m"
  have nl: "\<forall>l\<in>set ?lines. CHR 0x0A \<notin> set l"
    using assms(2) by (auto simp: lang_key_ok_def lang_value_ok_def)
  have ne: "?lines \<noteq> []" using False by simp
  have sp: "split_str (convertLangToBedrock m) (CHR 0x0A) = ?lines"
    unfolding convertLangToBedrock_def using ne nl by (rule split_join)
  have c: "lf_content (convertBedrockLangToInternal (convertLangToBedrock m) code nm) =
           foldl langLine [] ?lines"
    by (simp add: convertBedrockLangToInternal_def sp)
  have 1: "map_of (foldl langLine [] ?lines) = map_of m"
    using foldl_langLine_map_of [OF assms, of "[]"] by simp
  have 2: "distinct (map fst (foldl langLine [] ?lines))"
    by (rule foldl_langLine_distinct) simp
  have 3: "foldl langLine [] ?lines = m" if "enumerationOrder (map fst m)"
    using foldl_langLine [of "[]" m] assms that by simp
  show ?thesis unfolding c using 1 2 3 by blast
qed

lemmas lang_eval =
  lang_key_ok_def lang_value_ok_def untrimmed_def startsWith_def js_whitespace_def
  enumerationOrder_def arrayIndex_def isDigit_def digitsValue_def

theorem lang_roundtrip_witness:
  "lf_content (convertBedrockLangToInternal
      (convertLangToBedrock [(''7'', ''seven''), (''item.gem'', ''Shiny Gem''), (''a b'', ''x=y''), (''empty'', [])])
      ''en_us'' ''en_US'')
   = [(''7'', ''seven''), (''item.gem'', ''Shiny Gem''), (''a b'', ''x=y''), (''empty'', [])]"
proof -
  let ?m = "[(''7'', ''seven''), (''item.gem'', ''Shiny Gem''), (''a b'', ''x=y''), (''empty'', [])]"
  have d: "distinct (map fst ?m)" by simp
  have ok: "\<forall>(k, v)\<in>set ?m. lang_key_ok k \<and> lang_value_ok v"
    by (simp add: lang_eval)
  have np: "''__proto__'' \<notin> fst ` set ?m" by simp
  have eo: "enumerationOrder (map fst ?m)" by (simp add: lang_eval)
  from lang_roundtrip [OF d ok np, of "''en_us''" "''en_US''"] eo show ?thesis by blast
qed

text \<open>
  Claim C10 as stated fails at the key \<^verbatim>\<open>__proto__\<close>, which meets every side condition of
  the claim: the table with the entries \<^verbatim>\<open>a\<close> and \<^verbatim>\<open>__proto__\<close> is encoded in two lines, and
  the decoder, which assigns each entry to an object written as \<^verbatim>\<open>{}\<close>, keeps only the
  entry \<^verbatim>\<open>a\<close>.
\<close>

theorem lang_proto_entry_lost:
  "lang_key_ok ''__proto__'' \<and> lang_value_ok ''x'' \<and>
   convertLangToBedrock [(''a'', ''b''), (''__proto__'', ''x'')] = ''a=b'' @ [CHR 0x0A] @ ''__proto__=x'' \<and>
   lf_content (convertBedrockLangToInternal
      (convertLangToBedrock [(''a'', ''b''), (''__proto__'', ''x'')]) ''en_us'' ''en_US'') =
     [(''a'', ''b'')]"
  by (simp add: lang_eval convertLangToBedrock_def convertBedrockLangToInternal_def langLine_def
        trim_def indexOf_def substring_def substring_from_def assign_def)

section \<open>Properties of the export\<close>

lemma not_inherited_proto: "\<not> inheritedMember k \<Longrightarrow> k \<noteq> ''__proto__''"
  by (auto simp: inheritedMember_def objectPrototypeMembers_def)

lemma pushTo_inherited:
  "inheritedMember k \<Longrightarrow> map_of acc k = None \<Longrightarrow> pushTo k v acc = None"
  by (simp add: pushTo_def)

lemma pushTo_plain:
  assumes "\<not> inheritedMember k"
  shows "\<exists>acc'. pushTo k v acc = Some acc' \<and>
           (distinct (map fst acc) \<longrightarrow> distinct (map fst acc')) \<and>
           (\<forall>k'. map_of acc' k' =
              (if k' = k then Some ((case map_of acc k of None \<Rightarrow> [] | Some l \<Rightarrow> l) @ [v])
               else map_of acc k'))"
proof (cases "map_of acc k")
  case None
  from assms have np: "k \<noteq> ''__proto__''" by (rule not_inherited_proto)
  let ?a = "assign k [] acc"
  have m: "map_of ?a = (map_of acc)(k \<mapsto> [])" by (rule map_of_assign [OF np])
  then have "pushTo k v acc = Some (AList.map_entry k (\<lambda>l. l @ [v]) ?a)"
    using None assms by (simp add: pushTo_def)
  moreover have "distinct (map fst acc) \<longrightarrow> distinct (map fst (AList.map_entry k (\<lambda>l. l @ [v]) ?a))"
    by (simp add: AList.distinct_map_entry distinct_assign)
  moreover have "\<forall>k'. map_of (AList.map_entry k (\<lambda>l. l @ [v]) ?a) k' =
      (if k' = k then Some ((case map_of acc k of None \<Rightarrow> [] | Some l \<Rightarrow> l) @ [v])
       else map_of acc k')"
    using None by (simp add: AList.map_of_map_entry m)
  ultimately show ?thesis by blast
next
  case (Some l)
  then have "pushTo k v acc = Some (AList.map_entry k (\<lambda>l. l @ [v]) acc)"
    by (simp add: pushTo_def)
  moreover have "distinct (map fst acc) \<longrightarrow> distinct (map fst (AList.map_entry k (\<lambda>l. l @ [v]) acc))"
    by (simp add: AList.distinct_map_entry)
  moreover have "\<forall>k'. map_of (AList.map_entry k (\<lambda>l. l @ [v]) acc) k' =
      (if k' = k then Some ((case map_of acc k of None \<Rightarrow> [] | Some l \<Rightarrow> l) @ [v])
       else map_of acc k')"
    using Some by (simp add: AList.map_of_map_entry)
  ultimately show ?thesis by blast
qed

lemma group_fold:
  "(case foldl (\<lambda>acc x. Option.bind acc (pushTo (f x) (g x))) (Some []) xs of
      None \<Rightarrow> \<exists>x\<in>set xs. inheritedMember (f x)
    | Some G \<Rightarrow>
        (\<forall>x\<in>set xs. \<not> inheritedMember (f x)) \<and> distinct (map fst G) \<and>
        (\<forall>k. map_of G k =
           (if filter (\<lambda>x. f x = k) xs = [] then None
            else Some (map g (filter (\<lambda>x. f x = k) xs)))))"
proof (induction xs rule: rev_induct)
  case Nil then show ?case by simp
next
  case (snoc x xs)
  let ?F = "\<lambda>acc x. Option.bind acc (pushTo (f x) (g x))"
  show ?case
  proof (cases "foldl ?F (Some []) xs")
    case None
    with snoc show ?thesis by auto
  next
    case (Some G)
    with snoc have ni: "\<forall>x\<in>set xs. \<not> inheritedMember (f x)" and d: "distinct (map fst G)"
      and m: "\<forall>k. map_of G k =
           (if filter (\<lambda>x. f x = k) xs = [] then None
            else Some (map g (filter (\<lambda>x. f x = k) xs)))"
      by auto
    have step: "foldl ?F (Some []) (xs @ [x]) = pushTo (f x) (g x) G"
      using Some by simp
    show ?thesis
    proof (cases "inheritedMember (f x)")
      case True
      with ni have "filter (\<lambda>y. f y = f x) xs = []" by (auto simp: filter_empty_conv)
      with m have "map_of G (f x) = None" by simp
      with True have "pushTo (f x) (g x) G = None" by (simp add: pushTo_inherited)
      with step True show ?thesis by simp
    next
      case False
      from pushTo_plain [OF False, of "g x" G] obtain G' where
        p: "pushTo (f x) (g x) G = Some G'" and d': "distinct (map fst G')"
        and m': "\<forall>k'. map_of G' k' =
              (if k' = f x then Some ((case map_of G (f x) of None \<Rightarrow> [] | Some l \<Rightarrow> l) @ [g x])
               else map_of G k')"
        using d by blast
      have "\<forall>k. map_of G' k =
           (if filter (\<lambda>y. f y = k) (xs @ [x]) = [] then None
            else Some (map g (filter (\<lambda>y. f y = k) (xs @ [x]))))"
      proof
        fix k
        show "map_of G' k =
           (if filter (\<lambda>y. f y = k) (xs @ [x]) = [] then None
            else Some (map g (filter (\<lambda>y. f y = k) (xs @ [x]))))"
          using m' [rule_format, of k] m [rule_format, of k] by (cases "k = f x") auto
      qed
      with step p d' ni False show ?thesis by simp
    qed
  qed
qed



lemma targetItemGroups_plain:
  "\<forall>m\<in>set ms. \<not> inheritedMember (m_targetItem m) \<Longrightarrow> \<exists>G. targetItemGroups ms = Some G"
  using group_fold [where f = m_targetItem and g = m_customModelData and xs = ms]
  by (cases "targetItemGroups ms") (auto simp: targetItemGroups_def)

text \<open>
  Claim C8 (the export only reads the asset model). Whatever the state and the edition,
  whether the validation gate lets the export through or not, and whether the export
  ends or stops at an exception, the asset model after \<^const>\<open>generateZip\<close> is the asset
  model before it: name, description, version, format, models, textures, fonts, sounds,
  languages, particles, shaders and icon are all unchanged. The export changes only the
  processing flag, the alerts, the downloads and the count of identifiers drawn.
\<close>

theorem generateZip_reads_only:
  "resourcePack (generateZip e st) = resourcePack st"
  by (simp add: generateZip_def Let_def split: option.splits)








lemmas group_eval =
  itemGroups_def targetItemGroups_def pushTo_def assign_def inheritedMember_def
  objectPrototypeMembers_def arrayIndex_def isDigit_def


text \<open>
  Claim C1 (an identifier of zero is valid) fails on the code. At a pack whose only model
  has primary identifier 0, \<^const>\<open>validateModel\<close> reports the model invalid, and the export,
  which the pack-level gate lets through, drops the model: the Platform A archive holds
  no selection document and no model document.
\<close>

theorem zero_identifier_rejected:
  "validateModel zeroModel =
     \<lparr> isValid = False, errors = [''Valid custom model data is required''] \<rparr> \<and>
   validateResourcePack e (newPack 63 [zeroModel] []) = Some \<lparr> isValid = True, errors = [] \<rparr> \<and>
   validModels (newPack 63 [zeroModel] []) = [] \<and>
   map_option (map fst) (javaFiles Java (newPack 63 [zeroModel] [])) =
     Some [''pack.mcmeta'', ''README.md'', ''geyser_mappings.json'']"
  by (simp add: validateModel_def validateResourcePack_def group_eval duplicates_def
        arrayIndexOf_def validModels_def javaFiles_def itemDefinitionFiles_def modelFiles_def
        textureFiles_def soundFiles_def zeroModel_def newModel_def newPack_def
        trim_def js_whitespace_def Let_def)

text \<open>
  Claim C7 (a bitmap provider with ascent at or above its height is rejected by
  validation) fails on the code. At a pack with one valid model and a font whose bitmap
  provider has ascent 10 and height 8, the error list \<^verbatim>\<open>validatePack\<close> collects is
  empty: no check reads the fonts. The export does write the font document, with the
  provider's ascent and height as they are.
\<close>

theorem bitmap_ascent_not_validated:
  "validatePackErrors e (newPack 63 [gemModel] [badFont]) = Some [] \<and>
   validateResourcePack e (newPack 63 [gemModel] [badFont]) = Some \<lparr> isValid = True, errors = [] \<rparr> \<and>
   map_option (\<lambda>files. map_of (zip_files [] files) ''assets/minecraft/font/icons.json'')
     (javaFiles Java (newPack 63 [gemModel] [badFont])) =
     Some (Some (Json (JObj [(''providers'', JArr [JObj
       [(''type'', JStr ''bitmap''), (''file'', JStr ''minecraft:font/icons.png''),
        (''ascent'', JNum 10), (''height'', JNum 8), (''chars'', JArr [JStr ''A''])]])])))"
  by (simp add: validatePackErrors_def validateModel_def validateResourcePack_def
        group_eval duplicates_def arrayIndexOf_def validModels_def javaFiles_def
        itemDefinitionFiles_def modelFiles_def textureFiles_def soundFiles_def
        fontFiles_def fontJson_def providerJson_def bitmapProvider_def numOr_def greedyThen_def
        startsWith_def lineTerminator_def zip_files_def sortedModels_def
        gemModel_def badFont_def newModel_def newPack_def trim_def js_whitespace_def Let_def)

section \<open>Properties of the import\<close>


lemma those_map_Some: "those (map f xs) = Some ys \<Longrightarrow> map Some ys = map f xs"
proof (induction xs arbitrary: ys)
  case Nil then show ?case by simp
next
  case (Cons x xs) then show ?case by (auto split: option.splits)
qed














lemma importModelTask_number:
  assumes "JSON_parse e content = Some d" and "d \<noteq> JNull"
  shows "\<exists>model. importModelTask e n tm item nm (JNum c) content = Some model \<and>
                 m_customModelData model = c \<and>
                 m_textures model = resolveLayers tm (getProp d ''textures'')"
  using assms by (simp add: importModelTask_def Let_def)










lemma big_number_text:
  "stringify plainEnv (JObj [(''floats'', JArr [JNum (10 ^ 21)])]) = ''{'' @ quote ''floats'' @ '':[1e+21]}''"
  by (simp add: numberText_def safeInteger_def plainEnv_def exponential_def decimal_def decimalNat.simps
        digitChar_def quote_def escapeChar_def Let_def)



lemma resolveLayer_other:
  "fst entry \<noteq> layer \<Longrightarrow> map_of (resolveLayer tm texs entry) layer = map_of texs layer"
proof (cases entry)
  case (Pair l v)
  assume "fst entry \<noteq> layer"
  with Pair have ne: "l \<noteq> layer" by simp
  show ?thesis
  proof (cases "l = ''__proto__''")
    case True
    with Pair show ?thesis by (cases v) (simp_all add: resolveLayer_def assign_proto)
  next
    case False
    with Pair ne show ?thesis by (cases v) (simp_all add: resolveLayer_def map_of_assign)
  qed
qed



lemma foldl_resolveLayer_proto:
  "map_of (foldl (resolveLayer tm) texs kvs) ''__proto__'' = map_of texs ''__proto__''"
proof (induction kvs arbitrary: texs)
  case Nil then show ?case by simp
next
  case (Cons kv kvs)
  have "map_of (resolveLayer tm texs kv) ''__proto__'' = map_of texs ''__proto__''"
  proof (cases "fst kv = ''__proto__''")
    case True
    then show ?thesis by (cases kv; cases "snd kv") (simp_all add: resolveLayer_def assign_proto)
  next
    case False then show ?thesis by (rule resolveLayer_other)
  qed
  with Cons.IH show ?case by simp
qed









section \<open>Properties of the geometry converter\<close>

text \<open>
  Claim C3 (every node of the tree, nested ones included, becomes a bone, and a nested
  bone names its parent) fails on the code. The mesh \<^const>\<open>nestedMesh\<close> has two group
  nodes, \<^verbatim>\<open>arm\<close> inside \<^verbatim>\<open>body\<close>. The converter yields one bone, \<^verbatim>\<open>body\<close>, without a parent and
  with the one cube of its own element: the nested group \<^verbatim>\<open>arm\<close> gets no bone, and its
  element no cube.
\<close>

theorem nested_group_gets_no_bone:
  "(case bb_outliner nestedMesh of
      Some items \<Rightarrow> map n_name (concat (map treeNodes items))
    | None \<Rightarrow> []) = [Some ''body'', Some ''arm''] \<and>
   map bone_name (geo_bones (convertToBedrock e nestedMesh ''robot'')) = [''body''] \<and>
   map bone_parent (geo_bones (convertToBedrock e nestedMesh ''robot'')) = [None] \<and>
   map (map cube_origin \<circ> bone_cubes) (geo_bones (convertToBedrock e nestedMesh ''robot'')) =
     [[[0, 0, 0]]]"
  by (simp add: nestedMesh_def convertToBedrock_def processBone_def List.map_filter_def
        strOr_def vecOr_def convertCube_def)

section \<open>Properties of the merge\<close>

lemma mergeEntry_fst:
  "fst (mergeEntry e cs n acc en) = textureStep cs (fst acc) (n, en)"
  by (cases acc) (simp add: mergeEntry_def textureStep_def isTextureEntry_def)

lemma foldl_mergeEntry_fst:
  "fst (foldl (mergeEntry e cs n) acc entries) =
     foldl (textureStep cs) (fst acc) (map (\<lambda>en. (n, en)) entries)"
  by (induction entries arbitrary: acc) (simp_all add: mergeEntry_fst)

lemma scanPacks_textures:
  "\<forall>p\<in>set packs. mp_file p \<noteq> Unreadable \<Longrightarrow>
   \<exists>mm. scanPacks e cs packs acc = Some (foldl (textureStep cs) (fst acc) (scanOrder packs), mm)"
proof (induction packs arbitrary: acc)
  case Nil
  then show ?case by (cases acc) (simp add: scanOrder_def)
next
  case (Cons p packs)
  then obtain entries where a: "mp_file p = Archive entries" by (cases "mp_file p") auto
  from Cons.prems have "\<forall>p\<in>set packs. mp_file p \<noteq> Unreadable" by simp
  from Cons.IH [OF this, of "foldl (mergeEntry e cs (mp_name p)) acc entries"]
  show ?case
    using a by (simp add: scanOrder_def packEntries_def foldl_mergeEntry_fst)
qed

lemma scanPacks_unreadable:
  "\<exists>p\<in>set packs. mp_file p = Unreadable \<Longrightarrow> scanPacks e cs packs acc = None"
proof (induction packs arbitrary: acc)
  case Nil then show ?case by simp
next
  case (Cons p packs)
  then show ?case by (cases "mp_file p") auto
qed

lemma writeTarget_texture: "writeTarget cs x = Some k \<Longrightarrow> isTextureEntry (snd x)"
  by (cases x) (auto simp: writeTarget_def split: if_splits)

lemma textureStep_frame:
  "writeTarget cs x \<noteq> Some k \<Longrightarrow> map_of (textureStep cs mt x) k = map_of mt k"
  by (cases x)
     (auto simp: textureStep_def writeTarget_def mergeTextureEntry_def Let_def AList.update_conv'
           split: option.splits if_splits)

lemma textureStep_skipped:
  assumes "writeTarget cs x = Some k" and "skipMode cs (ze_path (snd x))" and "map_of mt k \<noteq> None"
  shows "textureStep cs mt x = mt"
  using assms
  by (cases x)
     (auto simp: textureStep_def writeTarget_def mergeTextureEntry_def skipMode_def Let_def
           split: option.splits if_splits)

lemma textureStep_write:
  assumes "writeTarget cs x = Some k"
    and "skipMode cs (ze_path (snd x)) \<longrightarrow> map_of mt k = None"
  shows "map_of (textureStep cs mt x) k = Some (entryFile k (ze_data (snd x)))"
  using assms
  by (cases x)
     (auto simp: textureStep_def writeTarget_def mergeTextureEntry_def skipMode_def Let_def
           AList.update_conv' split: option.splits if_splits)

lemma foldl_textureStep_free:
  "list_all (\<lambda>y. writeTarget cs y \<noteq> Some k) pre \<Longrightarrow>
   map_of (foldl (textureStep cs) mt pre) k = map_of mt k"
  by (induction pre arbitrary: mt) (simp_all add: textureStep_frame)

lemma foldl_textureStep_keep:
  "list_all (\<lambda>y. \<not> overwrites cs k y) post \<Longrightarrow> map_of mt k = Some f \<Longrightarrow>
   map_of (foldl (textureStep cs) mt post) k = Some f"
proof (induction post arbitrary: mt)
  case Nil then show ?case by simp
next
  case (Cons y post)
  have "map_of (textureStep cs mt y) k = Some f"
  proof (cases "writeTarget cs y = Some k")
    case True
    with Cons.prems(1) have "skipMode cs (ze_path (snd y))" by (simp add: overwrites_def)
    from textureStep_skipped [OF True this] Cons.prems(2) show ?thesis by simp
  next
    case False
    then show ?thesis using Cons.prems(2) by (simp add: textureStep_frame)
  qed
  with Cons show ?case by simp
qed

lemma last_write:
  assumes "writeTarget cs x = Some k"
    and "skipMode cs (ze_path (snd x)) \<longrightarrow> list_all (\<lambda>y. writeTarget cs y \<noteq> Some k) pre"
    and "list_all (\<lambda>y. \<not> overwrites cs k y) post"
  shows "map_of (foldl (textureStep cs) [] (pre @ x # post)) k = Some (entryFile k (ze_data (snd x)))"
proof -
  let ?mt = "foldl (textureStep cs) [] pre"
  have "skipMode cs (ze_path (snd x)) \<longrightarrow> map_of ?mt k = None"
    using assms(2) by (auto simp: foldl_textureStep_free)
  from textureStep_write [OF assms(1) this]
  have "map_of (textureStep cs ?mt x) k = Some (entryFile k (ze_data (snd x)))" .
  from foldl_textureStep_keep [OF assms(3) this] show ?thesis by simp
qed

lemma expandReplacement_plain_step:
  "c \<noteq> CHR ''$'' \<Longrightarrow> rest \<noteq> [] \<Longrightarrow>
   expandReplacement (c # rest) b m = c # expandReplacement rest b m"
  by (cases rest) simp_all

lemma expandReplacement_plain:
  "CHR ''$'' \<notin> set n \<Longrightarrow> expandReplacement (n @ ''$1'') b m = n @ m"
proof (induction n)
  case Nil then show ?case by simp
next
  case (Cons a n)
  then have "a \<noteq> CHR ''$''" and "CHR ''$'' \<notin> set n" by auto
  then show ?case using Cons.IH by (simp add: expandReplacement_plain_step)
qed

lemma renamePath_plain:
  assumes "splitFinalExtension path = Some (before, ext)" and "CHR ''$'' \<notin> set n"
  shows "renamePath path n = before @ ''_'' @ n @ ext"
proof -
  have "expandReplacement ((CHR ''_'' # n) @ ''$1'') before ext = (CHR ''_'' # n) @ ext"
    using assms(2) by (intro expandReplacement_plain) simp
  then show ?thesis using assms(1) by (simp add: renamePath_def)
qed

lemma renamePath_inj:
  assumes "splitFinalExtension path \<noteq> None" and "CHR ''$'' \<notin> set n1" and "CHR ''$'' \<notin> set n2"
    and "renamePath path n1 = renamePath path n2"
  shows "n1 = n2"
proof -
  from assms(1) obtain before ext where s: "splitFinalExtension path = Some (before, ext)" by auto
  from assms(4) show ?thesis
    by (simp add: renamePath_plain [OF s assms(2)] renamePath_plain [OF s assms(3)])
qed

text \<open>
  Claim C6, as amended. The path \<open>path\<close> has a conflict entry \<open>c\<close>, and the entry \<open>en\<close> of
  the package named \<open>n\<close> contributes to it; \<open>pre\<close> are the entries scanned before it and
  \<open>post\<close> those scanned after it. When an archive cannot be loaded nothing is merged.
  When all archives load: under overwrite the merged map holds at \<open>path\<close> the content of
  the last contributor, provided no entry scanned after it is renamed to \<open>path\<close>; under
  skip it holds the content of the first contributor, provided no scanned entry is
  renamed to \<open>path\<close>; under rename the contributor is stored at the path \<^const>\<open>renamePath\<close>
  gives it and stays there, provided no entry scanned after it overwrites that path.
  When \<open>path\<close> has a final extension and the package name has no dollar sign, the
  renamed path is \<open>path\<close> with an underscore and the package name before the extension,
  so that packages with distinct such names get distinct paths; a path without a final
  extension is renamed to itself.
\<close>

theorem merge_resolution:
  assumes conflict: "conflictOf conflicts path = Some c"
    and scan: "scanOrder packs = pre @ (n, en) # post"
    and contrib: "contributes path (n, en)"
  shows "((\<exists>p\<in>set packs. mp_file p = Unreadable) \<longrightarrow>
            scanPacks e conflicts packs ([], []) = None) \<and>
         ((\<forall>p\<in>set packs. mp_file p \<noteq> Unreadable) \<longrightarrow>
            (\<exists>mergedTextures mergedModels.
               scanPacks e conflicts packs ([], []) = Some (mergedTextures, mergedModels) \<and>
               (mc_resolution c = Overwrite \<and>
                list_all (\<lambda>y. \<not> contributes path y) post \<and>
                list_all (\<lambda>y. \<not> renamedTo conflicts path y) post \<longrightarrow>
                  map_of mergedTextures path = Some (entryFile path (ze_data en))) \<and>
               (mc_resolution c = Skip \<and>
                list_all (\<lambda>y. \<not> contributes path y) pre \<and>
                list_all (\<lambda>y. \<not> renamedTo conflicts path y) (pre @ post) \<longrightarrow>
                  map_of mergedTextures path = Some (entryFile path (ze_data en))) \<and>
               (mc_resolution c = Rename \<and>
                list_all (\<lambda>y. \<not> overwrites conflicts (renamePath path n) y) post \<longrightarrow>
                  map_of mergedTextures (renamePath path n) =
                    Some (entryFile (renamePath path n) (ze_data en))))) \<and>
         (\<forall>nm before ext. splitFinalExtension path = Some (before, ext) \<and> CHR ''$'' \<notin> set nm \<longrightarrow>
            renamePath path nm = before @ ''_'' @ nm @ ext) \<and>
         (\<forall>n1 n2. splitFinalExtension path \<noteq> None \<and> CHR ''$'' \<notin> set n1 \<and> CHR ''$'' \<notin> set n2 \<and>
            n1 \<noteq> n2 \<longrightarrow> renamePath path n1 \<noteq> renamePath path n2) \<and>
         (splitFinalExtension path = None \<longrightarrow> (\<forall>nm. renamePath path nm = path))"
proof (intro conjI impI)
  show "scanPacks e conflicts packs ([], []) = None" if "\<exists>p\<in>set packs. mp_file p = Unreadable"
    using that by (rule scanPacks_unreadable)
  show "\<forall>nm before ext. splitFinalExtension path = Some (before, ext) \<and> CHR ''$'' \<notin> set nm \<longrightarrow>
            renamePath path nm = before @ ''_'' @ nm @ ext"
    using renamePath_plain by blast
  show "\<forall>n1 n2. splitFinalExtension path \<noteq> None \<and> CHR ''$'' \<notin> set n1 \<and> CHR ''$'' \<notin> set n2 \<and>
            n1 \<noteq> n2 \<longrightarrow> renamePath path n1 \<noteq> renamePath path n2"
    using renamePath_inj by blast
  show "\<forall>nm. renamePath path nm = path" if "splitFinalExtension path = None"
    using that by (simp add: renamePath_def)
next
  assume readable: "\<forall>p\<in>set packs. mp_file p \<noteq> Unreadable"
  from scanPacks_textures [OF readable, of e conflicts "([], [])"]
  obtain mm where s: "scanPacks e conflicts packs ([], []) =
      Some (foldl (textureStep conflicts) [] (scanOrder packs), mm)" by auto
  let ?mt = "foldl (textureStep conflicts) [] (scanOrder packs)"
  from contrib have t: "isTextureEntry en" and p: "ze_path en = path"
    by (simp_all add: contributes_def)
  have other: "writeTarget conflicts y \<noteq> Some path"
    if "\<not> contributes path y" "\<not> renamedTo conflicts path y" for y
    using that writeTarget_texture [of conflicts y path]
    by (auto simp: contributes_def renamedTo_def)
  have sm: "skipMode conflicts path = (mc_resolution c = Skip)"
    using conflict by (simp add: skipMode_def)
  have ow: "map_of ?mt path = Some (entryFile path (ze_data en))"
    if a: "mc_resolution c = Overwrite \<and>
           list_all (\<lambda>y. \<not> contributes path y) post \<and>
           list_all (\<lambda>y. \<not> renamedTo conflicts path y) post"
  proof -
    from a conflict t p have w: "writeTarget conflicts (n, en) = Some path"
      by (simp add: writeTarget_def)
    from a sm p have ns: "skipMode conflicts (ze_path (snd (n, en))) \<longrightarrow>
        list_all (\<lambda>y. writeTarget conflicts y \<noteq> Some path) pre" by simp
    from a other have "list_all (\<lambda>y. \<not> overwrites conflicts path y) post"
      by (auto simp: list_all_iff overwrites_def)
    from last_write [OF w ns this] show ?thesis by (simp add: scan)
  qed
  have sk: "map_of ?mt path = Some (entryFile path (ze_data en))"
    if a: "mc_resolution c = Skip \<and>
           list_all (\<lambda>y. \<not> contributes path y) pre \<and>
           list_all (\<lambda>y. \<not> renamedTo conflicts path y) (pre @ post)"
  proof -
    from a conflict t p have w: "writeTarget conflicts (n, en) = Some path"
      by (simp add: writeTarget_def)
    from a other have "list_all (\<lambda>y. writeTarget conflicts y \<noteq> Some path) pre"
      by (auto simp: list_all_iff)
    then have ns: "skipMode conflicts (ze_path (snd (n, en))) \<longrightarrow>
        list_all (\<lambda>y. writeTarget conflicts y \<noteq> Some path) pre" by simp
    have "\<not> overwrites conflicts path y" if "y \<in> set post" for y
    proof (cases "contributes path y")
      case True
      then have "ze_path (snd y) = path" by (simp add: contributes_def)
      with sm a show ?thesis by (simp add: overwrites_def)
    next
      case False
      moreover from a that have "\<not> renamedTo conflicts path y" by (auto simp: list_all_iff)
      ultimately show ?thesis using other by (simp add: overwrites_def)
    qed
    then have "list_all (\<lambda>y. \<not> overwrites conflicts path y) post" by (simp add: list_all_iff)
    from last_write [OF w ns this] show ?thesis by (simp add: scan)
  qed
  have rn: "map_of ?mt (renamePath path n) = Some (entryFile (renamePath path n) (ze_data en))"
    if a: "mc_resolution c = Rename \<and>
           list_all (\<lambda>y. \<not> overwrites conflicts (renamePath path n) y) post"
  proof -
    from a conflict t p have w: "writeTarget conflicts (n, en) = Some (renamePath path n)"
      by (simp add: writeTarget_def)
    from a sm p have ns: "skipMode conflicts (ze_path (snd (n, en))) \<longrightarrow>
        list_all (\<lambda>y. writeTarget conflicts y \<noteq> Some (renamePath path n)) pre" by simp
    from a have "list_all (\<lambda>y. \<not> overwrites conflicts (renamePath path n) y) post" by simp
    from last_write [OF w ns this] show ?thesis by (simp add: scan)
  qed
  show "\<exists>mergedTextures mergedModels.
               scanPacks e conflicts packs ([], []) = Some (mergedTextures, mergedModels) \<and>
               (mc_resolution c = Overwrite \<and>
                list_all (\<lambda>y. \<not> contributes path y) post \<and>
                list_all (\<lambda>y. \<not> renamedTo conflicts path y) post \<longrightarrow>
                  map_of mergedTextures path = Some (entryFile path (ze_data en))) \<and>
               (mc_resolution c = Skip \<and>
                list_all (\<lambda>y. \<not> contributes path y) pre \<and>
                list_all (\<lambda>y. \<not> renamedTo conflicts path y) (pre @ post) \<longrightarrow>
                  map_of mergedTextures path = Some (entryFile path (ze_data en))) \<and>
               (mc_resolution c = Rename \<and>
                list_all (\<lambda>y. \<not> overwrites conflicts (renamePath path n) y) post \<longrightarrow>
                  map_of mergedTextures (renamePath path n) =
                    Some (entryFile (renamePath path n) (ze_data en)))"
    using s ow sk rn by (intro exI [of _ ?mt] exI [of _ mm]) blast
qed

lemmas merge_eval =
  gemPack_def gemConflict_def conflictOf_def contributors_def scanOrder_def packEntries_def
  isTextureEntry_def startsWith_def contributes_def renamedTo_def overwrites_def skipMode_def
  writeTarget_def renamePath_def
  splitFinalExtension_def lastSegment_def entryFile_def strOr_def mergeEntry_def
  mergeTextureEntry_def mergeModelEntry_def plainEnv_def Let_def

theorem merge_resolution_witness:
  "map_option (\<lambda>(mt, mm). map_of mt ''textures/item/gem.png'')
     (scanPacks plainEnv [gemConflict ''textures/item/gem.png'' Overwrite]
        [gemPack ''A'' ''textures/item/gem.png'' ''a'', gemPack ''B'' ''textures/item/gem.png'' ''b'']
        ([], [])) =
     Some (Some \<lparr> file_name = ''gem.png'', file_data = ''b'' \<rparr>) \<and>
   map_option (\<lambda>(mt, mm). map_of mt ''textures/item/gem.png'')
     (scanPacks plainEnv [gemConflict ''textures/item/gem.png'' Skip]
        [gemPack ''A'' ''textures/item/gem.png'' ''a'', gemPack ''B'' ''textures/item/gem.png'' ''b'']
        ([], [])) =
     Some (Some \<lparr> file_name = ''gem.png'', file_data = ''a'' \<rparr>) \<and>
   map_option (\<lambda>(mt, mm). (map_of mt ''textures/item/gem_A.png'', map_of mt ''textures/item/gem_B.png''))
     (scanPacks plainEnv [gemConflict ''textures/item/gem.png'' Rename]
        [gemPack ''A'' ''textures/item/gem.png'' ''a'', gemPack ''B'' ''textures/item/gem.png'' ''b'']
        ([], [])) =
     Some (Some \<lparr> file_name = ''gem_A.png'', file_data = ''a'' \<rparr>,
           Some \<lparr> file_name = ''gem_B.png'', file_data = ''b'' \<rparr>)"
proof -
  let ?path = "''textures/item/gem.png''"
  let ?packs = "[gemPack ''A'' ?path ''a'', gemPack ''B'' ?path ''b'']"
  let ?dir = "\<lparr> ze_path = ''assets/minecraft/textures/'', ze_dir = True, ze_data = [] \<rparr>"
  let ?ea = "\<lparr> ze_path = ?path, ze_dir = False, ze_data = ''a'' \<rparr>"
  let ?eb = "\<lparr> ze_path = ?path, ze_dir = False, ze_data = ''b'' \<rparr>"
  have r: "\<forall>p\<in>set ?packs. mp_file p \<noteq> Unreadable" by (simp add: gemPack_def)
  have c: "conflictOf [gemConflict ?path res] ?path = Some (gemConflict ?path res)" for res
    by (simp add: conflictOf_def gemConflict_def)
  have sa: "scanOrder ?packs = [(''A'', ?dir)] @ (''A'', ?ea) # [(''B'', ?dir), (''B'', ?eb)]"
    by (simp add: scanOrder_def packEntries_def gemPack_def)
  have sb: "scanOrder ?packs = [(''A'', ?dir), (''A'', ?ea), (''B'', ?dir)] @ (''B'', ?eb) # []"
    by (simp add: scanOrder_def packEntries_def gemPack_def)
  have ca: "contributes ?path (''A'', ?ea)" and cb: "contributes ?path (''B'', ?eb)"
    by (simp_all add: merge_eval)
  have ra: "renamePath ?path ''A'' = ''textures/item/gem_A.png''"
    and rb: "renamePath ?path ''B'' = ''textures/item/gem_B.png''"
    by (simp_all add: merge_eval)
  have o1: "list_all (\<lambda>y. \<not> contributes ?path y) []"
    and o2: "list_all (\<lambda>y. \<not> renamedTo [gemConflict ?path Overwrite] ?path y) []"
    by simp_all
  have s1: "list_all (\<lambda>y. \<not> contributes ?path y) [(''A'', ?dir)]"
    and s2: "list_all (\<lambda>y. \<not> renamedTo [gemConflict ?path Skip] ?path y)
               ([(''A'', ?dir)] @ [(''B'', ?dir), (''B'', ?eb)])"
    by (simp_all add: merge_eval)
  have n1: "list_all (\<lambda>y. \<not> overwrites [gemConflict ?path Rename] (renamePath ?path ''A'') y)
              [(''B'', ?dir), (''B'', ?eb)]"
    and n2: "list_all (\<lambda>y. \<not> overwrites [gemConflict ?path Rename] (renamePath ?path ''B'') y) []"
    by (simp_all add: merge_eval)
  have res: "mc_resolution (gemConflict ?path x) = x" for x by (simp add: gemConflict_def)
  from merge_resolution [OF c [of Overwrite] sb cb, of plainEnv] r o1 o2 res [of Overwrite]
  obtain mt1 mm1 where 1: "scanPacks plainEnv [gemConflict ?path Overwrite] ?packs ([], []) = Some (mt1, mm1)"
    "map_of mt1 ?path = Some (entryFile ?path ''b'')"
    by auto
  from merge_resolution [OF c [of Skip] sa ca, of plainEnv] r s1 s2 res [of Skip]
  obtain mt2 mm2 where 2: "scanPacks plainEnv [gemConflict ?path Skip] ?packs ([], []) = Some (mt2, mm2)"
    "map_of mt2 ?path = Some (entryFile ?path ''a'')"
    by auto
  from merge_resolution [OF c [of Rename] sa ca, of plainEnv] r n1 res [of Rename]
  obtain mt3 mm3 where 3: "scanPacks plainEnv [gemConflict ?path Rename] ?packs ([], []) = Some (mt3, mm3)"
    "map_of mt3 (renamePath ?path ''A'') = Some (entryFile (renamePath ?path ''A'') ''a'')"
    by auto
  from merge_resolution [OF c [of Rename] sb cb, of plainEnv] r n2 res [of Rename]
  obtain mt4 mm4 where 4: "scanPacks plainEnv [gemConflict ?path Rename] ?packs ([], []) = Some (mt4, mm4)"
    "map_of mt4 (renamePath ?path ''B'') = Some (entryFile (renamePath ?path ''B'') ''b'')"
    by auto
  from 3(1) 4(1) have e: "mt4 = mt3" by simp
  show ?thesis
    using 1 2 3 4 unfolding e ra rb
    by (simp add: entryFile_def lastSegment_def strOr_def)
qed

text \<open>
  Claim C6 as stated fails in all three modes at one scan of two packages. The path
  \<^verbatim>\<open>textures/gem\<close> has no final extension, so under rename both contributors are written
  to the unchanged path and only the last survives. The path \<^verbatim>\<open>textures/a.png\<close> is renamed
  to \<^verbatim>\<open>textures/a_A.png\<close> and \<^verbatim>\<open>textures/a_B.png\<close>, which are conflicting paths themselves:
  under overwrite \<^verbatim>\<open>textures/a_B.png\<close> ends with the renamed content \<^verbatim>\<open>b1\<close>, not with \<^verbatim>\<open>o2\<close> of
  its last-scanned contributor, and under skip \<^verbatim>\<open>textures/a_A.png\<close> ends with the renamed
  content \<^verbatim>\<open>a1\<close>, not with \<^verbatim>\<open>s1\<close> of its first-scanned contributor. Two packages with the
  distinct names \<^verbatim>\<open>$1\<close> and \<^verbatim>\<open>$&\<close> are renamed to the same path, where only the last
  survives. And with a package that cannot be loaded among them, the scan yields
  nothing.
\<close>

theorem merge_modes_clash:
  "map_option fst (scanPacks plainEnv clashConflicts [clashPackA, clashPackB] ([], [])) =
     Some [(''textures/gem'', \<lparr> file_name = ''gem'', file_data = ''g2'' \<rparr>),
           (''textures/a_A.png'', \<lparr> file_name = ''a_A.png'', file_data = ''a1'' \<rparr>),
           (''textures/a_B.png'', \<lparr> file_name = ''a_B.png'', file_data = ''b1'' \<rparr>)] \<and>
   renamePath ''textures/gem'' ''A'' = renamePath ''textures/gem'' ''B'' \<and>
   map (ze_data \<circ> snd) (contributors [clashPackA, clashPackB] ''textures/a_B.png'') = [''o1'', ''o2''] \<and>
   map (ze_data \<circ> snd) (contributors [clashPackA, clashPackB] ''textures/a_A.png'') = [''s1'', ''s2''] \<and>
   mp_name dollarPackA \<noteq> mp_name dollarPackB \<and>
   map_option fst (scanPacks plainEnv [gemConflict ''textures/a.png'' Rename]
                     [dollarPackA, dollarPackB] ([], [])) =
     Some [(''textures/a_.png.png'', \<lparr> file_name = ''a_.png.png'', file_data = ''b1'' \<rparr>)] \<and>
   scanPacks plainEnv clashConflicts [clashPackA, brokenPack, clashPackB] ([], []) = None"
  by (simp add: merge_eval clashPackA_def clashPackB_def clashConflicts_def texEntry_def
        dollarPackA_def dollarPackB_def brokenPack_def expandReplacement.simps)

lemma addTexture_pack:
  "addTexture e st f = Some st' \<Longrightarrow>
   \<exists>t. t_file t = f \<and>
       resourcePack st' = (resourcePack st)\<lparr> textures := textures (resourcePack st) @ [t] \<rparr>"
proof -
  assume a: "addTexture e st f = Some st'"
  then obtain d where d: "imageSize e f = Some d" by (auto simp: addTexture_def split: option.splits)
  let ?t = "newTextureData e (uuidsDrawn st) f d"
  have "t_file ?t = f" by (simp add: newTextureData_def Let_def)
  moreover have "resourcePack st' = (resourcePack st)\<lparr> textures := textures (resourcePack st) @ [?t] \<rparr>"
    using a d by (auto simp: addTexture_def)
  ultimately show ?thesis by blast
qed

lemma addTexture_flag: "addTexture e st f = Some st' \<Longrightarrow> isProcessing st' = isProcessing st"
  by (auto simp: addTexture_def split: option.splits)

lemma addTextures_flag: "isProcessing (fst (addTextures e st files)) = isProcessing st"
proof (induction files arbitrary: st)
  case Nil then show ?case by simp
next
  case (Cons f files)
  then show ?case by (cases "addTexture e st f") (simp_all add: addTexture_flag)
qed

lemma addTextures_pack:
  "\<exists>added. resourcePack (fst (addTextures e st files)) =
             (resourcePack st)\<lparr> textures := textures (resourcePack st) @ added \<rparr> \<and>
           map t_file added = takeWhile (\<lambda>f. imageSize e f \<noteq> None) files \<and>
           snd (addTextures e st files) = list_all (\<lambda>f. imageSize e f \<noteq> None) files"
proof (induction files arbitrary: st)
  case Nil
  show ?case by (intro exI [of _ "[]"]) simp
next
  case (Cons f files)
  show ?case
  proof (cases "addTexture e st f")
    case None
    then have "imageSize e f = None" by (auto simp: addTexture_def Let_def split: option.splits)
    with None show ?thesis by (intro exI [of _ "[]"]) simp
  next
    case (Some st')
    then have i: "imageSize e f \<noteq> None" by (auto simp: addTexture_def split: option.splits)
    from addTexture_pack [OF Some] obtain t where t: "t_file t = f"
      and rp: "resourcePack st' = (resourcePack st)\<lparr> textures := textures (resourcePack st) @ [t] \<rparr>"
      by blast
    from Cons.IH [of st'] obtain added where
      a: "resourcePack (fst (addTextures e st' files)) =
             (resourcePack st')\<lparr> textures := textures (resourcePack st') @ added \<rparr>"
      and b: "map t_file added = takeWhile (\<lambda>f. imageSize e f \<noteq> None) files"
      and c: "snd (addTextures e st' files) = list_all (\<lambda>f. imageSize e f \<noteq> None) files"
      by blast
    show ?thesis
      using Some t rp a b c i by (intro exI [of _ "t # added"]) simp
  qed
qed

lemma newTextureData_parse:
  "newTextureData (e\<lparr> JSON_parse := p \<rparr>) n f d = newTextureData e n f d"
  by (simp add: newTextureData_def)

lemma addTexture_parse: "addTexture (e\<lparr> JSON_parse := p \<rparr>) st f = addTexture e st f"
  by (simp add: addTexture_def newTextureData_parse split: option.splits)

lemma addTextures_parse: "addTextures (e\<lparr> JSON_parse := p \<rparr>) st files = addTextures e st files"
  by (induction files arbitrary: st) (simp_all add: addTexture_parse split: option.splits)

lemma scanPacks_parse:
  "fst acc = fst acc' \<Longrightarrow>
   map_option fst (scanPacks e' cs packs acc') = map_option fst (scanPacks e cs packs acc)"
proof (induction packs arbitrary: acc acc')
  case Nil then show ?case by simp
next
  case (Cons p packs)
  show ?case
  proof (cases "mp_file p")
    case Unreadable then show ?thesis by simp
  next
    case (Archive entries)
    have "fst (foldl (mergeEntry e cs (mp_name p)) acc entries) =
          fst (foldl (mergeEntry e' cs (mp_name p)) acc' entries)"
      using Cons.prems by (simp add: foldl_mergeEntry_fst)
    from Cons.IH [OF this] show ?thesis using Archive by simp
  qed
qed

text \<open>
  Claim C9, as amended (the merge feeds only textures back). After \<^const>\<open>executeMerge\<close> the
  asset model is the one before with textures appended, every other field unchanged
  (the models among them). The files of the appended textures are the merged texture
  files in the order of the merged map, up to the first one whose image never loads:
  all of them when every image loads, none when an archive does not load. The merge
  ends, and clears the processing flag, exactly when an archive does not load or every
  image loads. The model documents play no part: whatever \<^verbatim>\<open>JSON.parse\<close> makes of them,
  the asset model comes out the same.
\<close>

theorem merge_feeds_only_textures:
  "(\<exists>added. resourcePack (executeMerge e st) =
              (resourcePack st)\<lparr> textures := textures (resourcePack st) @ added \<rparr> \<and>
      (case scanPacks e (mergeConflicts st) (mergePacks st) ([], []) of
         None \<Rightarrow> added = []
       | Some (mergedTextures, mergedModels) \<Rightarrow>
           map t_file added = takeWhile (\<lambda>f. imageSize e f \<noteq> None) (map snd mergedTextures))) \<and>
   isProcessing (executeMerge e st) =
     (case scanPacks e (mergeConflicts st) (mergePacks st) ([], []) of
        None \<Rightarrow> False
      | Some (mergedTextures, mergedModels) \<Rightarrow>
          \<not> list_all (\<lambda>f. imageSize e f \<noteq> None) (map snd mergedTextures)) \<and>
   resourcePack (executeMerge (e\<lparr> JSON_parse := p \<rparr>) st) = resourcePack (executeMerge e st)"
proof (intro conjI)
  show "\<exists>added. resourcePack (executeMerge e st) =
              (resourcePack st)\<lparr> textures := textures (resourcePack st) @ added \<rparr> \<and>
      (case scanPacks e (mergeConflicts st) (mergePacks st) ([], []) of
         None \<Rightarrow> added = []
       | Some (mergedTextures, mergedModels) \<Rightarrow>
           map t_file added = takeWhile (\<lambda>f. imageSize e f \<noteq> None) (map snd mergedTextures))"
  proof (cases "scanPacks e (mergeConflicts st) (mergePacks st) ([], [])")
    case None
    then show ?thesis by (intro exI [of _ "[]"]) (simp add: executeMerge_def)
  next
    case (Some r)
    obtain mt mm where r: "r = (mt, mm)" by (cases r)
    let ?st = "st\<lparr> isProcessing := True \<rparr>"
    from addTextures_pack [of e ?st "map snd mt"] obtain added where
      a': "resourcePack (fst (addTextures e ?st (map snd mt))) =
             (resourcePack ?st)\<lparr> textures := textures (resourcePack ?st) @ added \<rparr>"
      and b: "map t_file added = takeWhile (\<lambda>f. imageSize e f \<noteq> None) (map snd mt)"
      by blast
    from a' have a: "resourcePack (fst (addTextures e ?st (map snd mt))) =
             (resourcePack st)\<lparr> textures := textures (resourcePack st) @ added \<rparr>"
      by simp
    have "resourcePack (executeMerge e st) = resourcePack (fst (addTextures e ?st (map snd mt)))"
      using Some r by (simp add: executeMerge_def split: prod.splits)
    with a b Some r show ?thesis by (intro exI [of _ added]) auto
  qed
next
  show "isProcessing (executeMerge e st) =
     (case scanPacks e (mergeConflicts st) (mergePacks st) ([], []) of
        None \<Rightarrow> False
      | Some (mergedTextures, mergedModels) \<Rightarrow>
          \<not> list_all (\<lambda>f. imageSize e f \<noteq> None) (map snd mergedTextures))"
  proof (cases "scanPacks e (mergeConflicts st) (mergePacks st) ([], [])")
    case None
    then show ?thesis by (simp add: executeMerge_def)
  next
    case (Some r)
    obtain mt mm where r: "r = (mt, mm)" by (cases r)
    let ?st = "st\<lparr> isProcessing := True \<rparr>"
    from addTextures_pack [of e ?st "map snd mt"]
    have c: "snd (addTextures e ?st (map snd mt)) = list_all (\<lambda>f. imageSize e f \<noteq> None) (map snd mt)"
      by blast
    have f: "isProcessing (fst (addTextures e ?st (map snd mt)))"
      by (simp add: addTextures_flag)
    obtain st' fin where af: "addTextures e ?st (map snd mt) = (st', fin)"
      by (cases "addTextures e ?st (map snd mt)")
    from af c have c': "fin = list_all (\<lambda>f. imageSize e f \<noteq> None) (map snd mt)" by simp
    from af f have f': "isProcessing st'" by simp
    have "executeMerge e st =
            (if fin then st'\<lparr> isProcessing := False, mergePacks := [], mergeConflicts := [],
                         alerts := alerts st' @ [MergeDone (length (mergePacks st)) (length mt)] \<rparr>
             else st')"
      using Some r af by (simp add: executeMerge_def)
    then show ?thesis using Some r c' f' by (cases fin) simp_all
  qed
next
  let ?e = "e\<lparr> JSON_parse := p \<rparr>"
  have s: "map_option fst (scanPacks ?e (mergeConflicts st) (mergePacks st) ([], [])) =
           map_option fst (scanPacks e (mergeConflicts st) (mergePacks st) ([], []))"
    by (rule scanPacks_parse) simp
  show "resourcePack (executeMerge ?e st) = resourcePack (executeMerge e st)"
  proof (cases "scanPacks e (mergeConflicts st) (mergePacks st) ([], [])")
    case None
    with s have "scanPacks ?e (mergeConflicts st) (mergePacks st) ([], []) = None" by simp
    with None show ?thesis by (simp add: executeMerge_def)
  next
    case (Some r)
    with s obtain r' where r': "scanPacks ?e (mergeConflicts st) (mergePacks st) ([], []) = Some r'"
      and f: "fst r' = fst r" by auto
    show ?thesis
      using Some r' f
      by (cases r; cases r') (simp add: executeMerge_def addTextures_parse split: prod.splits)
  qed
qed

lemma mergeState_scan:
  "scanPacks plainEnv (mergeConflicts mergeState) (mergePacks mergeState) ([], []) =
     Some ([(''textures/item/gem_A.png'', \<lparr> file_name = ''gem_A.png'', file_data = ''a'' \<rparr>),
            (''textures/item/gem_B.png'', \<lparr> file_name = ''gem_B.png'', file_data = ''b'' \<rparr>)],
           [(''assets/minecraft/models/item/gem.json'', JObj [])])"
  by (simp add: mergeState_def merge_eval)

theorem merge_feeds_only_textures_witness:
  "map_option snd (scanPacks plainEnv (mergeConflicts mergeState) (mergePacks mergeState) ([], [])) =
     Some [(''assets/minecraft/models/item/gem.json'', JObj [])] \<and>
   map t_file (textures (resourcePack (executeMerge plainEnv mergeState))) =
     [\<lparr> file_name = ''gem_A.png'', file_data = ''a'' \<rparr>,
      \<lparr> file_name = ''gem_B.png'', file_data = ''b'' \<rparr>] \<and>
   models (resourcePack (executeMerge plainEnv mergeState)) = [gemModel] \<and>
   \<not> isProcessing (executeMerge plainEnv mergeState)"
proof -
  have i: "imageSize plainEnv f \<noteq> None" for f by (simp add: plainEnv_def)
  note th = merge_feeds_only_textures [of plainEnv mergeState "\<lambda>s. None"]
  from th obtain added where
    a: "resourcePack (executeMerge plainEnv mergeState) =
          (resourcePack mergeState)\<lparr> textures := textures (resourcePack mergeState) @ added \<rparr>"
    and b: "map t_file added =
          [\<lparr> file_name = ''gem_A.png'', file_data = ''a'' \<rparr>,
           \<lparr> file_name = ''gem_B.png'', file_data = ''b'' \<rparr>]"
    by (auto simp: mergeState_scan i)
  from th have c: "\<not> isProcessing (executeMerge plainEnv mergeState)"
    by (simp add: mergeState_scan i)
  show ?thesis
    using mergeState_scan a b c by (simp add: mergeState_def newPack_def)
qed

text \<open>
  Claim C9 as stated fails when an image never loads. The merge of \<^const>\<open>mergeState\<close>
  resolves two texture files; the image of the second never loads, so only the first
  is appended to the asset model, and the merge never ends: the processing flag stays
  set and nothing is reported.
\<close>

theorem merge_stalls:
  "map_option (map snd \<circ> fst)
     (scanPacks stallEnv (mergeConflicts mergeState) (mergePacks mergeState) ([], [])) =
     Some [\<lparr> file_name = ''gem_A.png'', file_data = ''a'' \<rparr>,
           \<lparr> file_name = ''gem_B.png'', file_data = ''b'' \<rparr>] \<and>
   map t_file (textures (resourcePack (executeMerge stallEnv mergeState))) =
     [\<lparr> file_name = ''gem_A.png'', file_data = ''a'' \<rparr>] \<and>
   isProcessing (executeMerge stallEnv mergeState) \<and>
   alerts (executeMerge stallEnv mergeState) = []"
  by (simp add: mergeState_def merge_eval stallEnv_def executeMerge_def addTexture_def
        newTextureData_def stripExtension_def newPack_def)

end
